theory Spec2Isabelle
  imports Main "HOL-Library.Sublist" "HOL-Library.AList"
begin

section \<open>JavaScript basics shared by the models\<close>

text \<open>
  \<open>process.env\<close> maps variable names to strings; a variable that is not set reads as
  \<open>undefined\<close>, modelled by \<open>None\<close>.
\<close>

type_synonym process_env = "string \<rightharpoonup> string"

text \<open>
  Truthiness of a value of type \<open>string | undefined\<close>: \<open>undefined\<close> and the empty
  string are falsy, every other string is truthy.
\<close>

definition truthy :: "string option \<Rightarrow> bool" where
  "truthy v = (case v of None \<Rightarrow> False | Some s \<Rightarrow> s \<noteq> [])"

text \<open>\<open>v || d\<close> for \<open>v : string | undefined\<close>.\<close>

definition or_default :: "string option \<Rightarrow> string \<Rightarrow> string" where
  "or_default v d = (case v of None \<Rightarrow> d | Some s \<Rightarrow> if s \<noteq> [] then s else d)"

text \<open>\<open>Array.prototype.join\<close> on an array of strings.\<close>

fun join :: "string \<Rightarrow> string list \<Rightarrow> string" where
  "join sep [] = []"
| "join sep [x] = x"
| "join sep (x # y # ys) = x @ sep @ join sep (y # ys)"

text \<open>\<open>String.prototype.includes\<close>: \<open>str_includes s t\<close> is \<open>s.includes(t)\<close>.\<close>

fun str_includes :: "string \<Rightarrow> string \<Rightarrow> bool" where
  "str_includes [] t = (t = [])"
| "str_includes (c # cs) t = (prefix t (c # cs) \<or> str_includes cs t)"

text \<open>
  Property lookup \<open>obj[key]\<close> on an object literal: an own property wins; otherwise the
  lookup walks to \<open>Object.prototype\<close>, whose members are all truthy (functions, and
  \<open>Object.prototype\<close> itself for \<open>__proto__\<close>); otherwise the result is \<open>undefined\<close>.
\<close>

definition Object_prototype_keys :: "string list" where
  "Object_prototype_keys =
     [''constructor'', ''__defineGetter__'', ''__defineSetter__'', ''hasOwnProperty'',
      ''__lookupGetter__'', ''__lookupSetter__'', ''isPrototypeOf'',
      ''propertyIsEnumerable'', ''toString'', ''valueOf'', ''__proto__'',
      ''toLocaleString'']"

datatype 'a js_lookup = Own 'a | Inherited string | NotFound

definition js_get :: "(string \<times> 'a) list \<Rightarrow> string \<Rightarrow> 'a js_lookup" where
  "js_get obj k =
     (case map_of obj k of
        Some v \<Rightarrow> Own v
      | None \<Rightarrow> if k \<in> set Object_prototype_keys then Inherited k else NotFound)"


section \<open>test/system/utils.ts: the current test environment\<close>

record TestEnvironment =
  name :: string
  baseUrl :: string
  description :: string

text \<open>
  The table \<open>TEST_ENVIRONMENTS\<close> is built when the module is loaded and reads three
  variables of the environment of that moment. Key order is the order of the literal.
\<close>

definition TEST_ENVIRONMENTS :: "process_env \<Rightarrow> (string \<times> TestEnvironment) list" where
  "TEST_ENVIRONMENTS env =
     [(''express'',
         \<lparr>name = ''express'', baseUrl = ''http://localhost:3020'',
          description = ''Express HTTP server (npm run dev:http)''\<rparr>),
      (''express:ci'',
         \<lparr>name = ''express:ci'',
          baseUrl = ''http://localhost:'' @ or_default (env ''HTTP_TEST_PORT'') ''3021'',
          description = ''Express HTTP server for CI testing (npm run dev:http:ci)''\<rparr>),
      (''stdio'',
         \<lparr>name = ''stdio'', baseUrl = ''stdio://localhost'',
          description = ''STDIO transport mode (npm run dev:stdio)''\<rparr>),
      (''vercel:local'',
         \<lparr>name = ''vercel:local'', baseUrl = ''http://localhost:3020'',
          description = ''Local Vercel dev server (npm run dev:vercel)''\<rparr>),
      (''vercel:preview'',
         \<lparr>name = ''vercel:preview'',
          baseUrl = or_default (env ''VERCEL_PREVIEW_URL'') ''https://canary-preview.vercel.app'',
          description = ''Vercel preview deployment''\<rparr>),
      (''vercel:production'',
         \<lparr>name = ''vercel:production'',
          baseUrl = or_default (env ''VERCEL_PRODUCTION_URL'') ''https://canary.vercel.app'',
          description = ''Vercel production deployment''\<rparr>),
      (''docker'',
         \<lparr>name = ''docker'', baseUrl = ''http://localhost:3020'',
          description = ''Docker container (docker run with exposed port)''\<rparr>)]"

text \<open>
  What \<open>getCurrentEnvironment\<close> hands back. For a name the table defines it is a
  \<open>TestEnvironment\<close>. For a name found on \<open>Object.prototype\<close> the lookup is truthy, so
  the function returns that member as it is, or, under a base URL override, the spread of
  it (no own enumerable property) with the one field \<open>baseUrl\<close>.
\<close>

datatype env_result =
    Environment TestEnvironment
  | PrototypeMember string
  | BaseUrlOnly string

text \<open>\<open>getCurrentEnvironment\<close>; \<open>Inl\<close> carries the message of the thrown \<open>Error\<close>.\<close>

definition getCurrentEnvironment ::
  "(string \<times> TestEnvironment) list \<Rightarrow> process_env \<Rightarrow> string + env_result" where
  "getCurrentEnvironment tbl env =
     (let envName = or_default (env ''TEST_ENV'') ''vercel:local'' in
      case js_get tbl envName of
        NotFound \<Rightarrow>
          Inl (''Unknown test environment: '' @ envName @ ''. Available: ''
                 @ join '', '' (map fst tbl))
      | Own environment \<Rightarrow>
          (if truthy (env ''TEST_BASE_URL'')
           then Inr (Environment (environment\<lparr>baseUrl := the (env ''TEST_BASE_URL'')\<rparr>))
           else Inr (Environment environment))
      | Inherited m \<Rightarrow>
          (if truthy (env ''TEST_BASE_URL'')
           then Inr (BaseUrlOnly (the (env ''TEST_BASE_URL'')))
           else Inr (PrototypeMember m)))"


section \<open>src/tools/current-timestamp.ts: the current-timestamp tool\<close>

text \<open>
  A thrown JavaScript value: an \<open>Error\<close> object with its message, or any other value
  with the string \<open>String(value)\<close> gives for it.
\<close>

datatype js_exn = ErrorObj string | NonError string

text \<open>\<open>error instanceof Error ? error.message : String(error)\<close>\<close>

fun errorMessage :: "js_exn \<Rightarrow> string" where
  "errorMessage (ErrorObj m) = m"
| "errorMessage (NonError s) = s"

text \<open>
  The result of a tool call: a list of content items, each \<open>{type: 'text', text}\<close> here,
  and the optional flag \<open>isError\<close> (\<open>None\<close> where the object literal has no such field).
\<close>

datatype content_item = TextContent string

record CallToolResult =
  content :: "content_item list"
  isError :: "bool option"

text \<open>
  The host objects the handler calls, taken as parameters: the clock behind
  \<open>new Date()\<close>, the constructor \<open>Intl.DateTimeFormat(locale, options)\<close>, which throws
  a \<open>RangeError\<close> for a time zone it does not know, the \<open>format\<close> method of the
  formatter it builds, and \<open>Date.prototype.toISOString\<close> and \<open>toString\<close>. Each call
  may throw: \<open>Inl\<close> is the thrown value.
\<close>

datatype opt_value = OStr string | OBool bool

type_synonym dtf_options = "(string \<times> opt_value) list"

record 'f host =
  Date_getTime :: int
  DateTimeFormat :: "string \<Rightarrow> dtf_options \<Rightarrow> js_exn + 'f"
  dtf_format :: "'f \<Rightarrow> int \<Rightarrow> js_exn + string"
  toISOString :: "int \<Rightarrow> js_exn + string"
  toString :: "int \<Rightarrow> js_exn + string"

text \<open>\<open>Number.prototype.toString\<close> on an integer below \<open>10^21\<close> in magnitude: decimal digits.\<close>

definition digit_char :: "nat \<Rightarrow> char" where
  "digit_char d = ''0123456789'' ! d"

fun digits :: "nat \<Rightarrow> string" where
  "digits n = (if n < 10 then [digit_char n] else digits (n div 10) @ [digit_char (n mod 10)])"

definition Number_toString :: "int \<Rightarrow> string" where
  "Number_toString i = (if i < 0 then CHR ''-'' # digits (nat (- i)) else digits (nat i))"

text \<open>
  The handler's input after the schema: \<open>timezone\<close> is optional; \<open>format\<close> is a string,
  one of \<open>unix\<close>, \<open>iso\<close>, \<open>human\<close> by the schema, and the \<open>default\<close> branch of the
  \<open>switch\<close> takes every other one.
\<close>

record timestamp_input =
  timezone :: "string option"
  format :: string

text \<open>
  An \<open>async\<close> function settles: \<open>Inr\<close> is the value its promise resolves to, \<open>Inl\<close>
  the value it rejects with. \<open>try_catch body h\<close> is \<open>try { body } catch (error) { h }\<close>.
\<close>

definition try_catch :: "('e + 'a) \<Rightarrow> ('e \<Rightarrow> 'e + 'a) \<Rightarrow> 'e + 'a" where
  "try_catch body h = (case body of Inl error \<Rightarrow> h error | Inr v \<Rightarrow> Inr v)"

definition invalid_timezone_text :: "string \<Rightarrow> string" where
  "invalid_timezone_text tz =
     ''Invalid timezone: '' @ tz
       @ ''. Use IANA timezone identifiers (e.g., America/New_York, Europe/London, Asia/Tokyo)''"

text \<open>The \<open>switch (format)\<close> of the handler: the string \<open>result\<close>, or what a host call threw.\<close>

definition format_result :: "'f host \<Rightarrow> int \<Rightarrow> string option \<Rightarrow> string \<Rightarrow> js_exn + string" where
  "format_result h now tz fmt =
     (if fmt = ''unix'' then Inr (Number_toString (now div 1000))
      else if fmt = ''iso'' then
        (if truthy tz then
           (case DateTimeFormat h ''en-US''
                   [(''timeZone'', OStr (the tz)), (''year'', OStr ''numeric''),
                    (''month'', OStr ''2-digit''), (''day'', OStr ''2-digit''),
                    (''hour'', OStr ''2-digit''), (''minute'', OStr ''2-digit''),
                    (''second'', OStr ''2-digit''), (''hour12'', OBool False),
                    (''timeZoneName'', OStr ''short'')] of
              Inl e \<Rightarrow> Inl e
            | Inr formatter \<Rightarrow> dtf_format h formatter now)
         else toISOString h now)
      else if fmt = ''human'' then
        (if truthy tz then
           (case DateTimeFormat h ''en-US''
                   [(''timeZone'', OStr (the tz)), (''dateStyle'', OStr ''full''),
                    (''timeStyle'', OStr ''long'')] of
              Inl e \<Rightarrow> Inl e
            | Inr formatter \<Rightarrow> dtf_format h formatter now)
         else toString h now)
      else toISOString h now)"

text \<open>
  The body of the outer \<open>try\<close>. The inner \<open>try\<close> around the validating constructor call
  returns the invalid-timezone result from its \<open>catch\<close>.
\<close>

definition handler_body :: "'f host \<Rightarrow> timestamp_input \<Rightarrow> js_exn + CallToolResult" where
  "handler_body h inp =
     (let now = Date_getTime h in
      if truthy (timezone inp)
           \<and> isl (DateTimeFormat h ''en-US'' [(''timeZone'', OStr (the (timezone inp)))])
      then Inr \<lparr>content = [TextContent (invalid_timezone_text (the (timezone inp)))],
                isError = Some True\<rparr>
      else
        (let displayTimezone = (if truthy (timezone inp) then timezone inp else None) in
         case format_result h now (timezone inp) (format inp) of
           Inl e \<Rightarrow> Inl e
         | Inr result \<Rightarrow>
             (let timezoneInfo = (case displayTimezone of
                                    Some d \<Rightarrow> '' ('' @ d @ '')'' | None \<Rightarrow> []);
                  formatInfo = (if format inp \<noteq> ''unix''
                                then '' in '' @ format inp @ '' format'' else [])
              in Inr \<lparr>content =
                         [TextContent (''Current timestamp'' @ formatInfo @ timezoneInfo
                                         @ '': '' @ result)],
                       isError = None\<rparr>)))"

text \<open>\<open>currentTimestampTool.handler\<close>: the outer \<open>try\<close>/\<open>catch\<close> around the body.\<close>

definition handler :: "'f host \<Rightarrow> timestamp_input \<Rightarrow> js_exn + CallToolResult" where
  "handler h inp =
     try_catch (handler_body h inp)
       (\<lambda>error. Inr \<lparr>content = [TextContent (''Error getting timestamp: '' @ errorMessage error)],
                      isError = Some True\<rparr>)"

text \<open>
  A host for evaluating the handler on concrete inputs: the clock stands at
  2023-11-14T22:13:20.123Z, the constructor knows three time zones and throws the
  \<open>RangeError\<close> of V8 for any other, and a formatter prints a fixed text.
\<close>

definition sample_host :: "string host" where
  "sample_host =
     \<lparr>Date_getTime = 1700000000123,
      DateTimeFormat = (\<lambda>locale opts.
         case map_of opts ''timeZone'' of
           Some (OStr tz) \<Rightarrow>
             if tz \<in> {''UTC'', ''America/New_York'', ''Europe/London''} then Inr tz
             else Inl (ErrorObj (''Invalid time zone specified: '' @ tz))
         | _ \<Rightarrow> Inr ''UTC''),
      dtf_format = (\<lambda>f t. Inr (''11/14/2023, 22:13:20 '' @ f)),
      toISOString = (\<lambda>t. Inr ''2023-11-14T22:13:20.123Z''),
      toString = (\<lambda>t. Inr ''Tue Nov 14 2023 22:13:20 GMT+0000 (Coordinated Universal Time)'')\<rparr>"

section \<open>JavaScript values seen by the tests\<close>

text \<open>
  Plain data: primitives, arrays, object literals (own properties in insertion order),
  a function object \<open>JFun n\<close> of which only \<open>typeof\<close> and \<open>.name\<close> are read here, and
  an opaque library object \<open>JOpaque\<close> (a Zod schema) of which no property is read.
\<close>

datatype jsval =
    JUndefined
  | JNull
  | JBool bool
  | JNum int
  | JStr string
  | JArr "jsval list"
  | JObj "(string \<times> jsval) list"
  | JFun string
  | JOpaque string

fun typeof :: "jsval \<Rightarrow> string" where
  "typeof JUndefined = ''undefined''"
| "typeof JNull = ''object''"
| "typeof (JBool b) = ''boolean''"
| "typeof (JNum n) = ''number''"
| "typeof (JStr s) = ''string''"
| "typeof (JArr xs) = ''object''"
| "typeof (JObj ps) = ''object''"
| "typeof (JFun n) = ''function''"
| "typeof (JOpaque d) = ''object''"

subsection \<open>Zod schemas as validators\<close>

text \<open>
  A schema is what its \<open>parse\<close> does: the parsed value, or \<open>None\<close> where it throws a
  \<open>ZodError\<close>. \<open>describe\<close> attaches documentation only. An object schema reads each
  declared key (a missing key reads as \<open>undefined\<close>), drops keys it does not declare,
  and leaves out a key that was absent and parsed to \<open>undefined\<close>.
\<close>

type_synonym zod = "jsval \<Rightarrow> jsval option"

definition z_string :: zod where
  "z_string v = (case v of JStr s \<Rightarrow> Some v | _ \<Rightarrow> None)"

definition z_number :: zod where
  "z_number v = (case v of JNum n \<Rightarrow> Some v | _ \<Rightarrow> None)"

definition z_boolean :: zod where
  "z_boolean v = (case v of JBool b \<Rightarrow> Some v | _ \<Rightarrow> None)"

definition z_optional :: "zod \<Rightarrow> zod" where
  "z_optional p v = (if v = JUndefined then Some JUndefined else p v)"

definition z_enum :: "string list \<Rightarrow> zod" where
  "z_enum xs v = (case v of JStr s \<Rightarrow> if s \<in> set xs then Some v else None | _ \<Rightarrow> None)"

definition z_default :: "zod \<Rightarrow> jsval \<Rightarrow> zod" where
  "z_default p d v = (if v = JUndefined then Some d else p v)"

definition z_array :: "zod \<Rightarrow> zod" where
  "z_array p v = (case v of JArr xs \<Rightarrow> map_option JArr (those (map p xs)) | _ \<Rightarrow> None)"

definition z_describe :: "zod \<Rightarrow> string \<Rightarrow> zod" where
  "z_describe p text = p"

fun parse_fields :: "(string \<times> zod) list \<Rightarrow> (string \<times> jsval) list \<Rightarrow> (string \<times> jsval) list option" where
  "parse_fields [] props = Some []"
| "parse_fields ((k, p) # fs) props =
     (case p (case map_of props k of Some x \<Rightarrow> x | None \<Rightarrow> JUndefined) of
        None \<Rightarrow> None
      | Some x \<Rightarrow>
          (case parse_fields fs props of
             None \<Rightarrow> None
           | Some rest \<Rightarrow>
               Some (if x = JUndefined \<and> map_of props k = None then rest else (k, x) # rest)))"

definition z_object :: "(string \<times> zod) list \<Rightarrow> zod" where
  "z_object shape v =
     (case v of JObj props \<Rightarrow> map_option JObj (parse_fields shape props) | _ \<Rightarrow> None)"

subsection \<open>Tool definitions and values handed back by the framework\<close>

text \<open>
  A tool definition is an object with the data properties \<open>name\<close>, \<open>description\<close>,
  \<open>inputSchema\<close> and \<open>handler\<close>, and two behaviours: what its schema parses and what
  its \<open>async\<close> handler settles to (\<open>Inl\<close>: the rejection).
\<close>

record tool_object =
  tool_props :: "(string \<times> jsval) list"
  tool_schema :: zod
  tool_handler :: "jsval \<Rightarrow> js_exn + jsval"

text \<open>
  The object literal \<open>{name, description, inputSchema, handler}\<close> that the sources pass
  to \<open>defineTool\<close>.
\<close>

definition tool_literal ::
  "string \<Rightarrow> string \<Rightarrow> zod \<Rightarrow> (jsval \<Rightarrow> js_exn + jsval) \<Rightarrow> tool_object" where
  "tool_literal n d schema h =
     \<lparr>tool_props = [(''name'', JStr n), (''description'', JStr d),
                     (''inputSchema'', JOpaque ''ZodObject''), (''handler'', JFun ''handler'')],
      tool_schema = schema,
      tool_handler = h\<rparr>"

text \<open>
  A value the framework hands back: plain data, a tool object, or an array of such
  values. Only a tool object carries behaviour: a function inside plain data is not
  called by the sources.
\<close>

datatype dval = Data jsval | ToolObj tool_object | Items "dval list"

text \<open>
  Reading a property \<open>v.k\<close>: a \<open>TypeError\<close> on \<open>undefined\<close> and \<open>null\<close>; \<open>undefined\<close>
  for a property the object does not have. \<open>JFun n\<close> has the property \<open>name\<close>.
\<close>

definition own_prop :: "(string \<times> jsval) list \<Rightarrow> string \<Rightarrow> jsval" where
  "own_prop ps k = (case map_of ps k of Some v \<Rightarrow> v | None \<Rightarrow> JUndefined)"

definition quoted :: "string \<Rightarrow> string" where
  "quoted k = [CHR 0x27] @ k @ [CHR 0x27]"

fun get_prop :: "dval \<Rightarrow> string \<Rightarrow> js_exn + jsval" where
  "get_prop (Data JUndefined) k =
     Inl (ErrorObj (''Cannot read properties of undefined (reading '' @ quoted k @ '')''))"
| "get_prop (Data JNull) k =
     Inl (ErrorObj (''Cannot read properties of null (reading '' @ quoted k @ '')''))"
| "get_prop (Data (JObj ps)) k = Inr (own_prop ps k)"
| "get_prop (Data (JArr xs)) k =
     Inr (if k = ''length'' then JNum (int (length xs)) else JUndefined)"
| "get_prop (Data (JFun n)) k = Inr (if k = ''name'' then JStr n else JUndefined)"
| "get_prop (Data v) k = Inr JUndefined"
| "get_prop (ToolObj t) k = Inr (own_prop (tool_props t) k)"
| "get_prop (Items xs) k =
     Inr (if k = ''length'' then JNum (int (length xs)) else JUndefined)"

text \<open>Optional chaining \<open>v?.k\<close>: \<open>undefined\<close> on \<open>undefined\<close> and \<open>null\<close>.\<close>

definition get_prop_opt :: "dval \<Rightarrow> string \<Rightarrow> jsval" where
  "get_prop_opt v k = (case get_prop v k of Inl e \<Rightarrow> JUndefined | Inr x \<Rightarrow> x)"

text \<open>\<open>Array.isArray(v)\<close>, and the element read \<open>v[0]\<close> of an array (\<open>undefined\<close> past the end).\<close>

fun isArray :: "dval \<Rightarrow> bool" where
  "isArray (Data (JArr xs)) = True"
| "isArray (Items xs) = True"
| "isArray v = False"

fun first_item :: "dval \<Rightarrow> dval" where
  "first_item (Data (JArr (x # xs))) = Data x"
| "first_item (Items (x # xs)) = x"
| "first_item v = Data JUndefined"

text \<open>\<open>typeof\<close> of a value handed back by the framework.\<close>

fun typeof_d :: "dval \<Rightarrow> string" where
  "typeof_d (Data v) = typeof v"
| "typeof_d (ToolObj t) = ''object''"
| "typeof_d (Items xs) = ''object''"

section \<open>The test runner as the tests use it\<close>

text \<open>
  A test body runs until something throws. \<open>expect(...)\<close> throws an
  \<open>AssertionError\<close> when its matcher fails, which ends the body at that line; the
  error is named here by the source text of the failed assertion. Anything the code
  under test throws ends the body as well.
\<close>

datatype failure = AssertionError string | Uncaught js_exn

text \<open>Sequencing of statements: the rest runs only if the first part did not throw.\<close>

definition andThen :: "('e + 'a) \<Rightarrow> ('a \<Rightarrow> 'e + 'b) \<Rightarrow> 'e + 'b" where
  "andThen m f = (case m of Inl e \<Rightarrow> Inl e | Inr v \<Rightarrow> f v)"

text \<open>A call into the code under test, inside a test body.\<close>

definition uncaught :: "js_exn + 'a \<Rightarrow> failure + 'a" where
  "uncaught m = (case m of Inl e \<Rightarrow> Inl (Uncaught e) | Inr v \<Rightarrow> Inr v)"

subsection \<open>Matchers\<close>

text \<open>\<open>expect(actual).toBe(expected)\<close>, used on primitives only.\<close>

definition toBe :: "string \<Rightarrow> jsval \<Rightarrow> jsval \<Rightarrow> failure + unit" where
  "toBe src actual expected = (if actual = expected then Inr () else Inl (AssertionError src))"

text \<open>\<open>expect(actual).toBeDefined()\<close>\<close>

fun is_undefined :: "dval \<Rightarrow> bool" where
  "is_undefined (Data JUndefined) = True"
| "is_undefined v = False"

definition toBeDefined :: "string \<Rightarrow> dval \<Rightarrow> failure + unit" where
  "toBeDefined src actual =
     (if is_undefined actual then Inl (AssertionError src) else Inr ())"

text \<open>
  \<open>expect(actual).toHaveProperty(key)\<close>. The matcher begins with
  \<open>Object.prototype.hasOwnProperty.call(actual, key)\<close>, which throws a \<open>TypeError\<close>
  on \<open>undefined\<close> and \<open>null\<close>.
\<close>

fun is_nullish :: "dval \<Rightarrow> bool" where
  "is_nullish (Data JUndefined) = True"
| "is_nullish (Data JNull) = True"
| "is_nullish v = False"

fun has_property :: "dval \<Rightarrow> string \<Rightarrow> bool" where
  "has_property (Data (JObj ps)) k = (k \<in> set (map fst ps))"
| "has_property (Data (JArr xs)) k = (k = ''length'')"
| "has_property (Data (JFun n)) k = (k = ''name'' \<or> k = ''length'')"
| "has_property (Data (JStr s)) k = (k = ''length'')"
| "has_property (Data v) k = False"
| "has_property (ToolObj t) k = (k \<in> set (map fst (tool_props t)))"
| "has_property (Items xs) k = (k = ''length'')"

definition toHaveProperty :: "string \<Rightarrow> dval \<Rightarrow> string \<Rightarrow> failure + unit" where
  "toHaveProperty src actual k =
     (if is_nullish actual
      then Inl (Uncaught (ErrorObj ''Cannot convert undefined or null to object''))
      else if has_property actual k then Inr () else Inl (AssertionError src))"

text \<open>\<open>expect(array).toContain(item)\<close> on an array of strings.\<close>

definition toContain :: "string \<Rightarrow> string list \<Rightarrow> dval \<Rightarrow> failure + unit" where
  "toContain src xs item =
     (case item of
        Data (JStr s) \<Rightarrow> if s \<in> set xs then Inr () else Inl (AssertionError src)
      | _ \<Rightarrow> Inl (AssertionError src))"

text \<open>
  What a call that should return a promise gave back: a promise that resolves, one that
  rejects, or a value that is no promise.
\<close>

datatype promise = Resolved jsval | Rejected js_exn | NotAPromise jsval

text \<open>
  \<open>await expect(p).rejects.toThrow(text)\<close>: passes when \<open>p\<close> rejects and the message of
  the rejection (the string itself for a thrown string) includes \<open>text\<close>.
\<close>

definition rejects_toThrow :: "string \<Rightarrow> promise \<Rightarrow> string \<Rightarrow> failure + unit" where
  "rejects_toThrow src p text =
     (case p of
        Rejected e \<Rightarrow>
          if str_includes (errorMessage e) text then Inr () else Inl (AssertionError src)
      | Resolved v \<Rightarrow> Inl (AssertionError src)
      | NotAPromise v \<Rightarrow> Inl (AssertionError src))"

subsection \<open>Results of tests and of groups of tests\<close>

datatype probe_status = Pass | Fail | Skip string

record ProbeResult =
  entry :: string
  status :: probe_status
  failures :: "failure list"

text \<open>\<open>it(title, body)\<close>: passed if the body ran to its end, failed with what it threw.\<close>

definition it :: "string \<Rightarrow> (failure + unit) \<Rightarrow> ProbeResult" where
  "it title body =
     (case body of
        Inr u \<Rightarrow> \<lparr>entry = title, status = Pass, failures = []\<rparr>
      | Inl f \<Rightarrow> \<lparr>entry = title, status = Fail, failures = [f]\<rparr>)"

text \<open>
  \<open>describe(title, ...)\<close>: every test of the group is run; the group passes if each test
  passed and carries the failures of all of them, in order.
\<close>

definition describe :: "string \<Rightarrow> ProbeResult list \<Rightarrow> ProbeResult" where
  "describe title tests =
     \<lparr>entry = title,
      status = (if list_all (\<lambda>t. status t = Pass) tests then Pass else Fail),
      failures = concat (map failures tests)\<rparr>"

section \<open>The framework packages as the tests see them\<close>

text \<open>
  The three imported packages are not part of this repository. They enter as a record
  of what each imported binding is and of what each call the sources make does:
  \<open>'r\<close> is the state of a \<open>ToolRegistry\<close> instance, \<open>'m\<close> of an \<open>LLMManager\<close>
  instance. A name the package does not export reads as \<open>undefined\<close>. A method that
  changes its object returns the new state. \<open>registry_call\<close> is awaited where it is
  used, so a rejection and a throw are the same \<open>Inl\<close>.
\<close>

record ('r, 'm) framework =
  defineTool_export :: jsval
  defineTool_impl :: "tool_object \<Rightarrow> js_exn + dval"
  ToolRegistry_export :: jsval
  ToolRegistry_new :: "js_exn + 'r"
  registry_member :: "'r \<Rightarrow> string \<Rightarrow> jsval"
  registry_add :: "'r \<Rightarrow> dval \<Rightarrow> js_exn + 'r"
  registry_get :: "'r \<Rightarrow> string \<Rightarrow> js_exn + dval"
  registry_has :: "'r \<Rightarrow> string \<Rightarrow> js_exn + dval"
  registry_list :: "'r \<Rightarrow> js_exn + dval"
  registry_merge :: "'r \<Rightarrow> 'r \<Rightarrow> js_exn + 'r"
  registry_call :: "'r \<Rightarrow> string \<Rightarrow> jsval \<Rightarrow> js_exn + dval"
  EnvironmentConfig_export :: jsval
  EnvironmentConfig_member :: "string \<Rightarrow> jsval"
  EnvironmentConfig_get :: "js_exn + dval"
  EnvironmentConfig_getTransportMode :: "js_exn + dval"
  EnvironmentConfig_logConfiguration :: "js_exn + unit"
  LLMManager_export :: jsval
  LLMManager_new :: "js_exn + 'm"
  manager_member :: "'m \<Rightarrow> string \<Rightarrow> jsval"
  manager_initialize :: "'m \<Rightarrow> js_exn + promise"
  manager_getAvailableProviders :: "'m \<Rightarrow> js_exn + dval"
  manager_isProviderAvailable :: "'m \<Rightarrow> string \<Rightarrow> js_exn + dval"

text \<open>
  \<open>new C()\<close> and \<open>f(...)\<close>: a \<open>TypeError\<close> unless the value is a function, else what
  the constructor or the function does.
\<close>

definition construct :: "string \<Rightarrow> jsval \<Rightarrow> (js_exn + 'a) \<Rightarrow> failure + 'a" where
  "construct what c impl =
     (case c of
        JFun n \<Rightarrow> uncaught impl
      | _ \<Rightarrow> Inl (Uncaught (ErrorObj (what @ '' is not a constructor''))))"

definition call :: "string \<Rightarrow> jsval \<Rightarrow> (js_exn + 'a) \<Rightarrow> failure + 'a" where
  "call what f impl =
     (case f of
        JFun n \<Rightarrow> uncaught impl
      | _ \<Rightarrow> Inl (Uncaught (ErrorObj (what @ '' is not a function''))))"

text \<open>Reading a static member \<open>C.k\<close> of an imported class.\<close>

definition static_member :: "jsval \<Rightarrow> (string \<Rightarrow> jsval) \<Rightarrow> string \<Rightarrow> failure + jsval" where
  "static_member c members k =
     (case c of
        JUndefined \<Rightarrow> uncaught (get_prop (Data JUndefined) k)
      | JNull \<Rightarrow> uncaught (get_prop (Data JNull) k)
      | _ \<Rightarrow> Inr (members k))"

text \<open>
  \<open>String(v)\<close> as a template literal applies it. An array joins its elements, with
  nothing for \<open>undefined\<close> and \<open>null\<close>. For a function object the text is its
  source, which the model does not carry: \<open>function n\<close> stands for it.
\<close>

fun js_String :: "jsval \<Rightarrow> string" where
  "js_String JUndefined = ''undefined''"
| "js_String JNull = ''null''"
| "js_String (JBool b) = (if b then ''true'' else ''false'')"
| "js_String (JNum n) = Number_toString n"
| "js_String (JStr s) = s"
| "js_String (JArr xs) =
     join '','' (map (\<lambda>x. if x = JUndefined \<or> x = JNull then [] else js_String x) xs)"
| "js_String (JObj ps) = ''[object Object]''"
| "js_String (JFun n) = ''function '' @ n"
| "js_String (JOpaque d) = ''[object Object]''"

text \<open>
  An \<open>async ({k}) => ...\<close> handler: destructuring \<open>undefined\<close> or \<open>null\<close> rejects, else
  the body sees the property \<open>k\<close> of its argument.
\<close>

definition destructure :: "jsval \<Rightarrow> string \<Rightarrow> (jsval \<Rightarrow> js_exn + jsval) \<Rightarrow> js_exn + jsval" where
  "destructure args k body = andThen (get_prop (Data args) k) body"

definition text_content :: "string \<Rightarrow> jsval" where
  "text_content t = JObj [(''content'', JArr [JObj [(''type'', JStr ''text''), (''text'', JStr t)]])]"

definition empty_content :: jsval where
  "empty_content = JObj [(''content'', JArr [])]"

section \<open>test/interface-stability.test.ts\<close>

text \<open>
  Each test of the file, as a function of the framework. The string given to a matcher
  is the source text of its assertion.
\<close>

subsection \<open>Tool System Interface Stability: defineTool function\<close>

definition test_defineTool_export :: "('r, 'm) framework \<Rightarrow> failure + unit" where
  "test_defineTool_export fw =
     toBe ''expect(typeof defineTool).toBe('function')''
       (JStr (typeof (defineTool_export fw))) (JStr ''function'')"

definition defineTool :: "('r, 'm) framework \<Rightarrow> tool_object \<Rightarrow> failure + dval" where
  "defineTool fw d = call ''defineTool'' (defineTool_export fw) (defineTool_impl fw d)"

definition test_defineTool_zod :: "('r, 'm) framework \<Rightarrow> failure + unit" where
  "test_defineTool_zod fw =
     andThen (defineTool fw
        (tool_literal ''test-tool'' ''Test tool for interface stability''
           (z_object [(''input'', z_describe z_string ''Test input'')])
           (\<lambda>args. destructure args ''input''
              (\<lambda>input. Inr (text_content (''Received: '' @ js_String input)))))) (\<lambda>tool.
     andThen (uncaught (get_prop tool ''name'')) (\<lambda>tool_name.
     andThen (toBe ''expect(tool.name).toBe('test-tool')'' tool_name (JStr ''test-tool'')) (\<lambda>_.
     andThen (uncaught (get_prop tool ''description'')) (\<lambda>tool_description.
     andThen (toBe ''expect(tool.description).toBe('Test tool for interface stability')''
                tool_description (JStr ''Test tool for interface stability'')) (\<lambda>_.
     andThen (uncaught (get_prop tool ''inputSchema'')) (\<lambda>tool_inputSchema.
     andThen (toBeDefined ''expect(tool.inputSchema).toBeDefined()'' (Data tool_inputSchema)) (\<lambda>_.
     andThen (uncaught (get_prop tool ''handler'')) (\<lambda>tool_handler.
     andThen (toBeDefined ''expect(tool.handler).toBeDefined()'' (Data tool_handler)) (\<lambda>_.
     toBe ''expect(typeof tool.handler).toBe('function')''
       (JStr (typeof tool_handler)) (JStr ''function''))))))))))"

definition test_defineTool_optional :: "('r, 'm) framework \<Rightarrow> failure + unit" where
  "test_defineTool_optional fw =
     andThen (defineTool fw
        (tool_literal ''optional-test'' ''Test optional fields''
           (z_object [(''required'', z_string), (''optional'', z_optional z_string)])
           (\<lambda>args. Inr empty_content))) (\<lambda>tool.
     andThen (uncaught (get_prop tool ''inputSchema'')) (\<lambda>tool_inputSchema.
     toBeDefined ''expect(tool.inputSchema).toBeDefined()'' (Data tool_inputSchema)))"

definition test_defineTool_enum :: "('r, 'm) framework \<Rightarrow> failure + unit" where
  "test_defineTool_enum fw =
     andThen (defineTool fw
        (tool_literal ''enum-test'' ''Test enum fields''
           (z_object [(''format'', z_enum [''a'', ''b'', ''c''])])
           (\<lambda>args. Inr empty_content))) (\<lambda>tool.
     andThen (uncaught (get_prop tool ''inputSchema'')) (\<lambda>tool_inputSchema.
     toBeDefined ''expect(tool.inputSchema).toBeDefined()'' (Data tool_inputSchema)))"

subsection \<open>Tool System Interface Stability: ToolRegistry class\<close>

text \<open>\<open>new ToolRegistry()\<close> and the method calls on an instance.\<close>

definition new_ToolRegistry :: "('r, 'm) framework \<Rightarrow> failure + 'r" where
  "new_ToolRegistry fw =
     construct ''ToolRegistry'' (ToolRegistry_export fw) (ToolRegistry_new fw)"

definition add :: "('r, 'm) framework \<Rightarrow> 'r \<Rightarrow> dval \<Rightarrow> failure + 'r" where
  "add fw registry tool =
     call ''registry.add'' (registry_member fw registry ''add'') (registry_add fw registry tool)"

definition get :: "('r, 'm) framework \<Rightarrow> 'r \<Rightarrow> string \<Rightarrow> failure + dval" where
  "get fw registry n =
     call ''registry.get'' (registry_member fw registry ''get'') (registry_get fw registry n)"

definition has :: "('r, 'm) framework \<Rightarrow> 'r \<Rightarrow> string \<Rightarrow> failure + dval" where
  "has fw registry n =
     call ''registry.has'' (registry_member fw registry ''has'') (registry_has fw registry n)"

definition list :: "('r, 'm) framework \<Rightarrow> 'r \<Rightarrow> failure + dval" where
  "list fw registry =
     call ''registry.list'' (registry_member fw registry ''list'') (registry_list fw registry)"

definition merge :: "('r, 'm) framework \<Rightarrow> 'r \<Rightarrow> 'r \<Rightarrow> failure + 'r" where
  "merge fw registry other =
     call ''registry.merge'' (registry_member fw registry ''merge'')
       (registry_merge fw registry other)"

definition call_tool :: "('r, 'm) framework \<Rightarrow> 'r \<Rightarrow> string \<Rightarrow> jsval \<Rightarrow> failure + dval" where
  "call_tool fw registry n args =
     call ''registry.call'' (registry_member fw registry ''call'')
       (registry_call fw registry n args)"

text \<open>A value compared by \<open>toBe\<close>: a tool object or an array is no primitive.\<close>

fun as_data :: "dval \<Rightarrow> jsval" where
  "as_data (Data v) = v"
| "as_data (ToolObj t) = JOpaque ''ToolDefinition''"
| "as_data (Items xs) = JOpaque ''Array''"

definition test_ToolRegistry_export :: "('r, 'm) framework \<Rightarrow> failure + unit" where
  "test_ToolRegistry_export fw =
     andThen (toBe ''expect(typeof ToolRegistry).toBe('function')''
                (JStr (typeof (ToolRegistry_export fw))) (JStr ''function'')) (\<lambda>_.
     andThen (uncaught (get_prop (Data (ToolRegistry_export fw)) ''name'')) (\<lambda>class_name.
     toBe ''expect(ToolRegistry.name).toBe('ToolRegistry')'' class_name (JStr ''ToolRegistry'')))"

definition test_ToolRegistry_add :: "('r, 'm) framework \<Rightarrow> failure + unit" where
  "test_ToolRegistry_add fw =
     andThen (new_ToolRegistry fw) (\<lambda>registry.
     andThen (defineTool fw
        (tool_literal ''test'' ''Test'' (z_object [(''input'', z_string)])
           (\<lambda>args. destructure args ''input''
              (\<lambda>input. Inr (JObj [(''content'',
                   JArr [JObj [(''type'', JStr ''text''), (''text'', input)]])]))))) (\<lambda>tool.
     andThen (toBe ''expect(typeof registry.add).toBe('function')''
                (JStr (typeof (registry_member fw registry ''add''))) (JStr ''function'')) (\<lambda>_.
     andThen (add fw registry tool) (\<lambda>registry.
     andThen (has fw registry ''test'') (\<lambda>present.
     toBe ''expect(registry.has('test')).toBe(true)'' (as_data present) (JBool True))))))"

definition test_ToolRegistry_get :: "('r, 'm) framework \<Rightarrow> failure + unit" where
  "test_ToolRegistry_get fw =
     andThen (new_ToolRegistry fw) (\<lambda>registry.
     andThen (defineTool fw
        (tool_literal ''lookup-test'' ''Lookup test'' (z_object [])
           (\<lambda>args. Inr empty_content))) (\<lambda>tool.
     andThen (add fw registry tool) (\<lambda>registry.
     andThen (get fw registry ''lookup-test'') (\<lambda>retrieved.
     andThen (toBeDefined ''expect(retrieved).toBeDefined()'' retrieved) (\<lambda>_.
     toBe ''expect(retrieved?.name).toBe('lookup-test')''
       (get_prop_opt retrieved ''name'') (JStr ''lookup-test''))))))"

definition test_ToolRegistry_has :: "('r, 'm) framework \<Rightarrow> failure + unit" where
  "test_ToolRegistry_has fw =
     andThen (new_ToolRegistry fw) (\<lambda>registry.
     andThen (toBe ''expect(typeof registry.has).toBe('function')''
                (JStr (typeof (registry_member fw registry ''has''))) (JStr ''function'')) (\<lambda>_.
     andThen (has fw registry ''nonexistent'') (\<lambda>present.
     toBe ''expect(registry.has('nonexistent')).toBe(false)'' (as_data present) (JBool False))))"

text \<open>The five assertions on the array that \<open>registry.list()\<close> returned, in source order.\<close>

definition list_assertions :: "dval \<Rightarrow> (failure + unit) list" where
  "list_assertions tools =
     [toBe ''expect(Array.isArray(tools)).toBe(true)'' (JBool (isArray tools)) (JBool True),
      andThen (uncaught (get_prop tools ''length'')) (\<lambda>tools_length.
        toBe ''expect(tools.length).toBe(2)'' tools_length (JNum 2)),
      toHaveProperty ''expect(tools[0]).toHaveProperty('name')'' (first_item tools) ''name'',
      toHaveProperty ''expect(tools[0]).toHaveProperty('description')''
        (first_item tools) ''description'',
      toHaveProperty ''expect(tools[0]).toHaveProperty('inputSchema')''
        (first_item tools) ''inputSchema'']"

text \<open>Statements in a row: the first one that throws ends the row.\<close>

fun in_sequence :: "(failure + unit) list \<Rightarrow> failure + unit" where
  "in_sequence [] = Inr ()"
| "in_sequence (a # as) = andThen a (\<lambda>_. in_sequence as)"

definition test_ToolRegistry_list :: "('r, 'm) framework \<Rightarrow> failure + unit" where
  "test_ToolRegistry_list fw =
     andThen (new_ToolRegistry fw) (\<lambda>registry.
     andThen (defineTool fw
        (tool_literal ''tool1'' ''Tool 1'' (z_object []) (\<lambda>args. Inr empty_content))) (\<lambda>tool1.
     andThen (defineTool fw
        (tool_literal ''tool2'' ''Tool 2'' (z_object []) (\<lambda>args. Inr empty_content))) (\<lambda>tool2.
     andThen (add fw registry tool1) (\<lambda>registry.
     andThen (add fw registry tool2) (\<lambda>registry.
     andThen (list fw registry) (\<lambda>tools.
     in_sequence (list_assertions tools)))))))"

definition test_ToolRegistry_merge :: "('r, 'm) framework \<Rightarrow> failure + unit" where
  "test_ToolRegistry_merge fw =
     andThen (new_ToolRegistry fw) (\<lambda>registry1.
     andThen (new_ToolRegistry fw) (\<lambda>registry2.
     andThen (defineTool fw
        (tool_literal ''tool1'' ''Tool 1'' (z_object []) (\<lambda>args. Inr empty_content))) (\<lambda>tool1.
     andThen (add fw registry1 tool1) (\<lambda>registry1.
     andThen (defineTool fw
        (tool_literal ''tool2'' ''Tool 2'' (z_object []) (\<lambda>args. Inr empty_content))) (\<lambda>tool2.
     andThen (add fw registry2 tool2) (\<lambda>registry2.
     andThen (toBe ''expect(typeof registry1.merge).toBe('function')''
                (JStr (typeof (registry_member fw registry1 ''merge''))) (JStr ''function'')) (\<lambda>_.
     andThen (merge fw registry1 registry2) (\<lambda>registry1.
     andThen (has fw registry1 ''tool1'') (\<lambda>has1.
     andThen (toBe ''expect(registry1.has('tool1')).toBe(true)'' (as_data has1) (JBool True)) (\<lambda>_.
     andThen (has fw registry1 ''tool2'') (\<lambda>has2.
     toBe ''expect(registry1.has('tool2')).toBe(true)'' (as_data has2) (JBool True))))))))))))"

definition test_ToolRegistry_call :: "('r, 'm) framework \<Rightarrow> failure + unit" where
  "test_ToolRegistry_call fw =
     andThen (new_ToolRegistry fw) (\<lambda>registry.
     andThen (defineTool fw
        (tool_literal ''invoke-test'' ''Invocation test'' (z_object [(''message'', z_string)])
           (\<lambda>args. destructure args ''message''
              (\<lambda>message. Inr (text_content (''Echo: '' @ js_String message)))))) (\<lambda>tool.
     andThen (add fw registry tool) (\<lambda>registry.
     andThen (toBe ''expect(typeof registry.call).toBe('function')''
                (JStr (typeof (registry_member fw registry ''call''))) (JStr ''function'')) (\<lambda>_.
     andThen (call_tool fw registry ''invoke-test'' (JObj [(''message'', JStr ''hello'')])) (\<lambda>result.
     andThen (toHaveProperty ''expect(result).toHaveProperty('content')'' result ''content'') (\<lambda>_.
     andThen (uncaught (get_prop result ''content'')) (\<lambda>result_content.
     toBe ''expect(Array.isArray(result.content)).toBe(true)''
       (JBool (isArray (Data result_content))) (JBool True))))))))"

subsection \<open>Configuration System Interface Stability: EnvironmentConfig class\<close>

definition test_EnvironmentConfig_export :: "('r, 'm) framework \<Rightarrow> failure + unit" where
  "test_EnvironmentConfig_export fw =
     andThen (toBe ''expect(typeof EnvironmentConfig).toBe('function')''
                (JStr (typeof (EnvironmentConfig_export fw))) (JStr ''function'')) (\<lambda>_.
     andThen (uncaught (get_prop (Data (EnvironmentConfig_export fw)) ''name'')) (\<lambda>class_name.
     toBe ''expect(EnvironmentConfig.name).toBe('EnvironmentConfig')''
       class_name (JStr ''EnvironmentConfig'')))"

definition test_EnvironmentConfig_get :: "('r, 'm) framework \<Rightarrow> failure + unit" where
  "test_EnvironmentConfig_get fw =
     andThen (static_member (EnvironmentConfig_export fw) (EnvironmentConfig_member fw) ''get'')
       (\<lambda>get_member.
     andThen (toBe ''expect(typeof EnvironmentConfig.get).toBe('function')''
                (JStr (typeof get_member)) (JStr ''function'')) (\<lambda>_.
     andThen (call ''EnvironmentConfig.get'' get_member (EnvironmentConfig_get fw)) (\<lambda>config.
     andThen (toBeDefined ''expect(config).toBeDefined()'' config) (\<lambda>_.
     toHaveProperty ''expect(config).toHaveProperty('NODE_ENV')'' config ''NODE_ENV''))))"

definition test_EnvironmentConfig_getTransportMode :: "('r, 'm) framework \<Rightarrow> failure + unit" where
  "test_EnvironmentConfig_getTransportMode fw =
     andThen (static_member (EnvironmentConfig_export fw) (EnvironmentConfig_member fw)
                ''getTransportMode'') (\<lambda>member.
     andThen (toBe ''expect(typeof EnvironmentConfig.getTransportMode).toBe('function')''
                (JStr (typeof member)) (JStr ''function'')) (\<lambda>_.
     andThen (call ''EnvironmentConfig.getTransportMode'' member
                (EnvironmentConfig_getTransportMode fw)) (\<lambda>mode.
     andThen (toBe ''expect(typeof mode).toBe('string')''
                (JStr (typeof_d mode)) (JStr ''string'')) (\<lambda>_.
     toContain ''expect(['stdio', 'streamable_http']).toContain(mode)''
       [''stdio'', ''streamable_http''] mode))))"

definition test_EnvironmentConfig_logConfiguration :: "('r, 'm) framework \<Rightarrow> failure + unit" where
  "test_EnvironmentConfig_logConfiguration fw =
     andThen (static_member (EnvironmentConfig_export fw) (EnvironmentConfig_member fw)
                ''logConfiguration'') (\<lambda>member.
     andThen (toBe ''expect(typeof EnvironmentConfig.logConfiguration).toBe('function')''
                (JStr (typeof member)) (JStr ''function'')) (\<lambda>_.
     call ''EnvironmentConfig.logConfiguration'' member (EnvironmentConfig_logConfiguration fw)))"

subsection \<open>LLM System Interface Stability: LLMManager class\<close>

definition new_LLMManager :: "('r, 'm) framework \<Rightarrow> failure + 'm" where
  "new_LLMManager fw = construct ''LLMManager'' (LLMManager_export fw) (LLMManager_new fw)"

definition test_LLMManager_export :: "('r, 'm) framework \<Rightarrow> failure + unit" where
  "test_LLMManager_export fw =
     andThen (toBe ''expect(typeof LLMManager).toBe('function')''
                (JStr (typeof (LLMManager_export fw))) (JStr ''function'')) (\<lambda>_.
     andThen (uncaught (get_prop (Data (LLMManager_export fw)) ''name'')) (\<lambda>class_name.
     toBe ''expect(LLMManager.name).toBe('LLMManager')'' class_name (JStr ''LLMManager'')))"

definition test_LLMManager_initialize :: "('r, 'm) framework \<Rightarrow> failure + unit" where
  "test_LLMManager_initialize fw =
     andThen (new_LLMManager fw) (\<lambda>manager.
     andThen (toBe ''expect(typeof manager.initialize).toBe('function')''
                (JStr (typeof (manager_member fw manager ''initialize''))) (JStr ''function'')) (\<lambda>_.
     andThen (call ''manager.initialize'' (manager_member fw manager ''initialize'')
                (manager_initialize fw manager)) (\<lambda>p.
     rejects_toThrow
       ''await expect(manager.initialize()).rejects.toThrow('No LLM clients could be initialized')''
       p ''No LLM clients could be initialized'')))"

definition test_LLMManager_getAvailableProviders :: "('r, 'm) framework \<Rightarrow> failure + unit" where
  "test_LLMManager_getAvailableProviders fw =
     andThen (new_LLMManager fw) (\<lambda>manager.
     andThen (toBe ''expect(typeof manager.getAvailableProviders).toBe('function')''
                (JStr (typeof (manager_member fw manager ''getAvailableProviders'')))
                (JStr ''function'')) (\<lambda>_.
     andThen (call ''manager.getAvailableProviders''
                (manager_member fw manager ''getAvailableProviders'')
                (manager_getAvailableProviders fw manager)) (\<lambda>providers.
     toBe ''expect(Array.isArray(providers)).toBe(true)''
       (JBool (isArray providers)) (JBool True))))"

definition test_LLMManager_isProviderAvailable :: "('r, 'm) framework \<Rightarrow> failure + unit" where
  "test_LLMManager_isProviderAvailable fw =
     andThen (new_LLMManager fw) (\<lambda>manager.
     andThen (toBe ''expect(typeof manager.isProviderAvailable).toBe('function')''
                (JStr (typeof (manager_member fw manager ''isProviderAvailable'')))
                (JStr ''function'')) (\<lambda>_.
     andThen (call ''manager.isProviderAvailable''
                (manager_member fw manager ''isProviderAvailable'')
                (manager_isProviderAvailable fw manager ''anthropic'')) (\<lambda>hasAnthropic.
     toBe ''expect(typeof hasAnthropic).toBe('boolean')''
       (JStr (typeof_d hasAnthropic)) (JStr ''boolean''))))"

subsection \<open>The groups of the file\<close>

definition defineTool_tests :: "('r, 'm) framework \<Rightarrow> ProbeResult list" where
  "defineTool_tests fw =
     [it ''should export defineTool function'' (test_defineTool_export fw),
      it ''should support tool definition with Zod schema'' (test_defineTool_zod fw),
      it ''should support optional input fields'' (test_defineTool_optional fw),
      it ''should support enum input fields'' (test_defineTool_enum fw)]"

definition ToolRegistry_tests :: "('r, 'm) framework \<Rightarrow> ProbeResult list" where
  "ToolRegistry_tests fw =
     [it ''should export ToolRegistry class'' (test_ToolRegistry_export fw),
      it ''should support tool registration via add() method'' (test_ToolRegistry_add fw),
      it ''should support tool lookup via get() method'' (test_ToolRegistry_get fw),
      it ''should support tool existence check via has() method'' (test_ToolRegistry_has fw),
      it ''should support tool listing via list() method'' (test_ToolRegistry_list fw),
      it ''should support registry merging via merge() method'' (test_ToolRegistry_merge fw),
      it ''should support async tool invocation via call() method'' (test_ToolRegistry_call fw)]"

definition EnvironmentConfig_tests :: "('r, 'm) framework \<Rightarrow> ProbeResult list" where
  "EnvironmentConfig_tests fw =
     [it ''should export EnvironmentConfig class'' (test_EnvironmentConfig_export fw),
      it ''should support get() static method'' (test_EnvironmentConfig_get fw),
      it ''should support getTransportMode() static method''
        (test_EnvironmentConfig_getTransportMode fw),
      it ''should support logConfiguration() static method''
        (test_EnvironmentConfig_logConfiguration fw)]"

definition LLMManager_tests :: "('r, 'm) framework \<Rightarrow> ProbeResult list" where
  "LLMManager_tests fw =
     [it ''should export LLMManager class'' (test_LLMManager_export fw),
      it ''should support initialize() method'' (test_LLMManager_initialize fw),
      it ''should support getAvailableProviders() method''
        (test_LLMManager_getAvailableProviders fw),
      it ''should support isProviderAvailable() method''
        (test_LLMManager_isProviderAvailable fw)]"

text \<open>The report of the file: one result for each group, in the order of the file.\<close>

definition interface_stability :: "('r, 'm) framework \<Rightarrow> ProbeResult list" where
  "interface_stability fw =
     [describe ''defineTool function'' (defineTool_tests fw),
      describe ''ToolRegistry class'' (ToolRegistry_tests fw),
      describe ''EnvironmentConfig class'' (EnvironmentConfig_tests fw),
      describe ''LLMManager class'' (LLMManager_tests fw)]"

section \<open>A framework that meets the recorded contract\<close>

text \<open>
  The packages \<open>@mcp-typescript-simple/tools\<close>, \<open>config\<close> and \<open>tools-llm\<close> are
  external to this repository: a tool registry with register, lookup, list and
  invoke-by-name operations over named, schema-validated callables, a configuration
  accessor, and an LLM provider manager with initialize, list-available-providers and
  check-provider-availability. The tests record what each call is expected to give.
  This is the simplest framework of that shape, used to evaluate the sources on
  concrete inputs.

  A registry holds its tools in registration order under their names, as a
  JavaScript \<open>Map\<close> does: setting a name again replaces the tool and keeps its place.
\<close>

type_synonym registry = "(string \<times> tool_object) list"

definition ref_member :: "string list \<Rightarrow> string \<Rightarrow> jsval" where
  "ref_member methods k = (if k \<in> set methods then JFun k else JUndefined)"

definition ref_add :: "registry \<Rightarrow> dval \<Rightarrow> js_exn + registry" where
  "ref_add r v =
     (case v of
        ToolObj t \<Rightarrow>
          (case own_prop (tool_props t) ''name'' of
             JStr n \<Rightarrow> Inr (AList.update n t r)
           | _ \<Rightarrow> Inl (ErrorObj ''Tool name must be a string''))
      | _ \<Rightarrow> Inl (ErrorObj (''Cannot read properties of undefined (reading '' @ quoted ''name'' @ '')'')))"

definition ref_get :: "registry \<Rightarrow> string \<Rightarrow> js_exn + dval" where
  "ref_get r n = Inr (case map_of r n of Some t \<Rightarrow> ToolObj t | None \<Rightarrow> Data JUndefined)"

definition ref_has :: "registry \<Rightarrow> string \<Rightarrow> js_exn + dval" where
  "ref_has r n = Inr (Data (JBool (n \<in> set (map fst r))))"

text \<open>\<open>list()\<close> gives one descriptor for each tool: its name, description and input schema.\<close>

definition descriptor :: "tool_object \<Rightarrow> dval" where
  "descriptor t =
     Data (JObj [(''name'', own_prop (tool_props t) ''name''),
                 (''description'', own_prop (tool_props t) ''description''),
                 (''inputSchema'', own_prop (tool_props t) ''inputSchema'')])"

definition ref_list :: "registry \<Rightarrow> js_exn + dval" where
  "ref_list r = Inr (Items (map (\<lambda>(n, t). descriptor t) r))"

definition ref_merge :: "registry \<Rightarrow> registry \<Rightarrow> js_exn + registry" where
  "ref_merge r other = Inr (fold (\<lambda>(n, t) acc. AList.update n t acc) other r)"

definition ref_call :: "registry \<Rightarrow> string \<Rightarrow> jsval \<Rightarrow> js_exn + dval" where
  "ref_call r n args =
     (case map_of r n of
        None \<Rightarrow> Inl (ErrorObj (''Unknown tool: '' @ n))
      | Some t \<Rightarrow>
          (case tool_schema t args of
             None \<Rightarrow> Inl (ErrorObj (''Invalid input for tool: '' @ n))
           | Some v \<Rightarrow> andThen (tool_handler t v) (\<lambda>result. Inr (Data result))))"

text \<open>
  The manager is given the providers that have credentials. Without any,
  \<open>initialize()\<close> rejects; the message is the one the test of the manager expects.
\<close>

definition ref_initialize :: "string list \<Rightarrow> js_exn + promise" where
  "ref_initialize providers =
     Inr (if providers = []
          then Rejected (ErrorObj ''No LLM clients could be initialized. Check API keys.'')
          else Resolved JUndefined)"

definition reference_framework :: "string list \<Rightarrow> (registry, string list) framework" where
  "reference_framework credentials =
     \<lparr>defineTool_export = JFun ''defineTool'',
      defineTool_impl = (\<lambda>d. Inr (ToolObj d)),
      ToolRegistry_export = JFun ''ToolRegistry'',
      ToolRegistry_new = Inr [],
      registry_member =
        (\<lambda>r. ref_member [''add'', ''get'', ''has'', ''list'', ''merge'', ''call'']),
      registry_add = ref_add,
      registry_get = ref_get,
      registry_has = ref_has,
      registry_list = ref_list,
      registry_merge = ref_merge,
      registry_call = ref_call,
      EnvironmentConfig_export = JFun ''EnvironmentConfig'',
      EnvironmentConfig_member =
        ref_member [''get'', ''getTransportMode'', ''logConfiguration''],
      EnvironmentConfig_get = Inr (Data (JObj [(''NODE_ENV'', JStr ''test'')])),
      EnvironmentConfig_getTransportMode = Inr (Data (JStr ''stdio'')),
      EnvironmentConfig_logConfiguration = Inr (),
      LLMManager_export = JFun ''LLMManager'',
      LLMManager_new = Inr credentials,
      manager_member =
        (\<lambda>m. ref_member [''initialize'', ''getAvailableProviders'', ''isProviderAvailable'']),
      manager_initialize = ref_initialize,
      manager_getAvailableProviders = (\<lambda>m. Inr (Data (JArr (map JStr m)))),
      manager_isProviderAvailable = (\<lambda>m p. Inr (Data (JBool (p \<in> set m))))\<rparr>"

subsection \<open>What the tests of the registry expect of an implementation\<close>

text \<open>
  A registry implementation conforms, under a reading \<open>held\<close> of its state as the tools it
  holds, when: the class and \<open>defineTool\<close> are exported as functions, \<open>defineTool\<close> hands
  the definition back, a new registry is empty, the six methods exist, \<open>add\<close> of a tool
  with a new name registers it last, \<open>has\<close> and \<open>get\<close> answer by name, \<open>list\<close> gives one
  item with name, description and input schema for each tool, \<open>merge\<close> of a registry
  adds its tools where all names are different, and \<open>call\<close> of a registered tool on an input its
  schema accepts settles as the handler does on the parsed input.
\<close>

definition registry_methods :: "string list" where
  "registry_methods = [''add'', ''get'', ''has'', ''list'', ''merge'', ''call'']"

definition conforming_registry :: "('r \<Rightarrow> registry) \<Rightarrow> ('r, 'm) framework \<Rightarrow> bool" where
  "conforming_registry held fw \<longleftrightarrow>
     defineTool_export fw = JFun ''defineTool''
   \<and> (\<forall>d. defineTool_impl fw d = Inr (ToolObj d))
   \<and> ToolRegistry_export fw = JFun ''ToolRegistry''
   \<and> (\<exists>r0. ToolRegistry_new fw = Inr r0 \<and> held r0 = [])
   \<and> (\<forall>r k. k \<in> set registry_methods \<longrightarrow> (\<exists>n. registry_member fw r k = JFun n))
   \<and> (\<forall>r t n. own_prop (tool_props t) ''name'' = JStr n \<and> n \<notin> set (map fst (held r)) \<longrightarrow>
         (\<exists>r'. registry_add fw r (ToolObj t) = Inr r' \<and> held r' = held r @ [(n, t)]))
   \<and> (\<forall>r n. registry_has fw r n = Inr (Data (JBool (n \<in> set (map fst (held r))))))
   \<and> (\<forall>r n t. map_of (held r) n = Some t \<longrightarrow> registry_get fw r n = Inr (ToolObj t))
   \<and> (\<forall>r. \<exists>items. registry_list fw r = Inr (Items items)
          \<and> length items = length (held r)
          \<and> (\<forall>item \<in> set items. has_property item ''name''
                \<and> has_property item ''description'' \<and> has_property item ''inputSchema''))
   \<and> (\<forall>r other. distinct (map fst (held r) @ map fst (held other)) \<longrightarrow>
         (\<exists>r'. registry_merge fw r other = Inr r' \<and> held r' = held r @ held other))
   \<and> (\<forall>r n t args v. map_of (held r) n = Some t \<and> tool_schema t args = Some v \<longrightarrow>
         registry_call fw r n args = andThen (tool_handler t v) (\<lambda>result. Inr (Data result)))"

text \<open>
  The same in two parts: what is expected of the registry class alone, and of
  \<open>defineTool\<close>, with which the tests of the registry build their tools.
\<close>

definition registry_contract :: "('r \<Rightarrow> registry) \<Rightarrow> ('r, 'm) framework \<Rightarrow> bool" where
  "registry_contract held fw \<longleftrightarrow>
     ToolRegistry_export fw = JFun ''ToolRegistry''
   \<and> (\<exists>r0. ToolRegistry_new fw = Inr r0 \<and> held r0 = [])
   \<and> (\<forall>r k. k \<in> set registry_methods \<longrightarrow> (\<exists>n. registry_member fw r k = JFun n))
   \<and> (\<forall>r t n. own_prop (tool_props t) ''name'' = JStr n \<and> n \<notin> set (map fst (held r)) \<longrightarrow>
         (\<exists>r'. registry_add fw r (ToolObj t) = Inr r' \<and> held r' = held r @ [(n, t)]))
   \<and> (\<forall>r n. registry_has fw r n = Inr (Data (JBool (n \<in> set (map fst (held r))))))
   \<and> (\<forall>r n t. map_of (held r) n = Some t \<longrightarrow> registry_get fw r n = Inr (ToolObj t))
   \<and> (\<forall>r. \<exists>items. registry_list fw r = Inr (Items items)
          \<and> length items = length (held r)
          \<and> (\<forall>item \<in> set items. has_property item ''name''
                \<and> has_property item ''description'' \<and> has_property item ''inputSchema''))
   \<and> (\<forall>r other. distinct (map fst (held r) @ map fst (held other)) \<longrightarrow>
         (\<exists>r'. registry_merge fw r other = Inr r' \<and> held r' = held r @ held other))
   \<and> (\<forall>r n t args v. map_of (held r) n = Some t \<and> tool_schema t args = Some v \<longrightarrow>
         registry_call fw r n args = andThen (tool_handler t v) (\<lambda>result. Inr (Data result)))"

definition defineTool_hands_back :: "('r, 'm) framework \<Rightarrow> bool" where
  "defineTool_hands_back fw \<longleftrightarrow>
     defineTool_export fw = JFun ''defineTool''
   \<and> (\<forall>d. defineTool_impl fw d = Inr (ToolObj d))"

section \<open>src/tools/index.ts: the tools of the canary project\<close>

text \<open>
  The schema of the current-timestamp tool, and its handler as the framework calls it:
  on the parsed argument object, from which the handler takes \<open>timezone\<close> and
  \<open>format\<close>. Destructuring \<open>undefined\<close> or \<open>null\<close> rejects. The handler only tests
  \<open>timezone\<close> for truthiness, hands it to \<open>Intl.DateTimeFormat\<close> and interpolates it,
  so a truthy value that is no string acts as the string \<open>String\<close> gives for it, and
  a falsy one as no timezone. \<open>format\<close> is compared with the three names and
  interpolated; its parameter type is a string.
\<close>

fun js_truthy :: "jsval \<Rightarrow> bool" where
  "js_truthy JUndefined = False"
| "js_truthy JNull = False"
| "js_truthy (JBool b) = b"
| "js_truthy (JNum n) = (n \<noteq> 0)"
| "js_truthy (JStr s) = (s \<noteq> [])"
| "js_truthy v = True"

definition timestamp_schema :: zod where
  "timestamp_schema =
     z_object
       [(''timezone'',
           z_describe (z_optional z_string)
             ''IANA timezone identifier (e.g., America/New_York, Europe/London, Asia/Tokyo)''),
        (''format'',
           z_describe (z_default (z_enum [''unix'', ''iso'', ''human'']) (JStr ''unix''))
             ''Output format: unix (seconds), iso (ISO 8601), or human (readable string)'')]"

definition result_object :: "CallToolResult \<Rightarrow> jsval" where
  "result_object r =
     JObj ((''content'',
              JArr (map (\<lambda>c. case c of TextContent t \<Rightarrow>
                           JObj [(''type'', JStr ''text''), (''text'', JStr t)]) (content r)))
           # (case isError r of None \<Rightarrow> [] | Some b \<Rightarrow> [(''isError'', JBool b)]))"

definition timestamp_handler :: "'f host \<Rightarrow> jsval \<Rightarrow> js_exn + jsval" where
  "timestamp_handler h args =
     andThen (get_prop (Data args) ''timezone'') (\<lambda>tz.
     andThen (get_prop (Data args) ''format'') (\<lambda>fmt.
     andThen (handler h \<lparr>timezone = (if js_truthy tz then Some (js_String tz) else None),
                          format = js_String fmt\<rparr>) (\<lambda>r.
     Inr (result_object r))))"

text \<open>The object literal given to \<open>defineTool\<close> in \<open>current-timestamp.ts\<close>.\<close>

definition currentTimestampTool_definition :: "'f host \<Rightarrow> tool_object" where
  "currentTimestampTool_definition h =
     tool_literal ''current-timestamp''
       ''Get current timestamp with optional timezone and format specification''
       timestamp_schema (timestamp_handler h)"

text \<open>\<open>export const currentTimestampTool = defineTool({...})\<close>, evaluated when the module loads.\<close>

definition currentTimestampTool :: "('r, 'm) framework \<Rightarrow> 'f host \<Rightarrow> failure + dval" where
  "currentTimestampTool fw h = defineTool fw (currentTimestampTool_definition h)"

text \<open>
  Registries are objects: a variable holds a reference, and a method changes the object
  behind it. The store lists the registry objects made so far; a reference is a position
  in it. \<open>new ToolRegistry()\<close> puts a new object at the end; \<open>registry.add(tool)\<close>
  replaces the state of the object the reference names.
\<close>

type_synonym ref = nat

definition store_new :: "('r, 'm) framework \<Rightarrow> 'r list \<Rightarrow> failure + (ref \<times> 'r list)" where
  "store_new fw store = andThen (new_ToolRegistry fw) (\<lambda>r. Inr (length store, store @ [r]))"

definition store_add :: "('r, 'm) framework \<Rightarrow> 'r list \<Rightarrow> ref \<Rightarrow> dval \<Rightarrow> failure + 'r list" where
  "store_add fw store registry tool =
     (if registry < length store
      then andThen (add fw (store ! registry) tool) (\<lambda>r. Inr (store[registry := r]))
      else Inl (Uncaught (ErrorObj (''Cannot read properties of undefined (reading '' @ quoted ''add'' @ '')''))))"

text \<open>
  \<open>createCanaryTools()\<close>, given the module constant \<open>currentTimestampTool\<close>: the
  reference it returns and the store after the call.
\<close>

definition createCanaryTools ::
  "('r, 'm) framework \<Rightarrow> dval \<Rightarrow> 'r list \<Rightarrow> failure + (ref \<times> 'r list)" where
  "createCanaryTools fw tool store =
     andThen (store_new fw store) (\<lambda>(registry, store).
     andThen (store_add fw store registry tool) (\<lambda>store.
     Inr (registry, store)))"

section \<open>test/type-compatibility.test.ts at run time\<close>

text \<open>
  The tests of this file are run by the same runner as the others
  (\<open>vitest.config.ts\<close> includes \<open>test/**/*.test.ts\<close>), which strips type
  annotations, type-only imports and comments, among them \<open>@ts-expect-error\<close>, and
  runs what is left. The one binding of the file that exists at run time is
  \<open>defineTool\<close>.
\<close>

text \<open>
  \<open>await tool.handler(args)\<close> on what \<open>defineTool\<close> returned, \<open>v[0]\<close> on plain data,
  and the matchers \<open>toHaveProperty(key, value)\<close> and \<open>toHaveLength(n)\<close>.
\<close>

fun handler_of :: "dval \<Rightarrow> (jsval \<Rightarrow> js_exn + jsval) option" where
  "handler_of (ToolObj t) =
     (case own_prop (tool_props t) ''handler'' of
        JFun n \<Rightarrow> Some (tool_handler t)
      | _ \<Rightarrow> None)"
| "handler_of v = None"

definition call_handler :: "dval \<Rightarrow> jsval \<Rightarrow> failure + jsval" where
  "call_handler tool args =
     andThen (uncaught (get_prop tool ''handler'')) (\<lambda>member.
     case handler_of tool of
       Some h \<Rightarrow> uncaught (h args)
     | None \<Rightarrow> Inl (Uncaught (ErrorObj ''tool.handler is not a function'')))"

fun index0 :: "jsval \<Rightarrow> js_exn + jsval" where
  "index0 JUndefined = Inl (ErrorObj (''Cannot read properties of undefined (reading '' @ quoted ''0'' @ '')''))"
| "index0 JNull = Inl (ErrorObj (''Cannot read properties of null (reading '' @ quoted ''0'' @ '')''))"
| "index0 (JArr (x # xs)) = Inr x"
| "index0 (JStr (c # cs)) = Inr (JStr [c])"
| "index0 v = Inr JUndefined"

definition toHaveProperty_value :: "string \<Rightarrow> jsval \<Rightarrow> string \<Rightarrow> jsval \<Rightarrow> failure + unit" where
  "toHaveProperty_value src actual k expected =
     (if is_nullish (Data actual)
      then Inl (Uncaught (ErrorObj ''Cannot convert undefined or null to object''))
      else case actual of
        JObj ps \<Rightarrow> if map_of ps k = Some expected then Inr () else Inl (AssertionError src)
      | _ \<Rightarrow> Inl (AssertionError src))"

definition toHaveLength :: "string \<Rightarrow> jsval \<Rightarrow> nat \<Rightarrow> failure + unit" where
  "toHaveLength src actual n =
     (case actual of
        JArr xs \<Rightarrow> if length xs = n then Inr () else Inl (AssertionError src)
      | JStr s \<Rightarrow> if length s = n then Inr () else Inl (AssertionError src)
      | _ \<Rightarrow> Inl (AssertionError src))"

text \<open>
  A handler that asserts in its body: a failed \<open>expect\<close> inside an \<open>async\<close> function
  rejects its promise with the \<open>AssertionError\<close>.
\<close>

definition rejecting :: "failure + 'a \<Rightarrow> js_exn + 'a" where
  "rejecting m =
     (case m of
        Inl (AssertionError src) \<Rightarrow> Inl (ErrorObj src)
      | Inl (Uncaught e) \<Rightarrow> Inl e
      | Inr v \<Rightarrow> Inr v)"

subsection \<open>ToolDefinition type\<close>

definition test_valid_tool_definitions :: "failure + unit" where
  "test_valid_tool_definitions =
     toBeDefined ''expect(validTool).toBeDefined()''
       (ToolObj (tool_literal ''test-tool'' ''Test tool'' (z_object [(''input'', z_string)])
          (\<lambda>args. destructure args ''input''
             (\<lambda>input. Inr (JObj [(''content'',
                  JArr [JObj [(''type'', JStr ''text''), (''text'', input)]])])))))"

definition test_optional_fields_in_type :: "failure + unit" where
  "test_optional_fields_in_type =
     toBeDefined ''expect(tool).toBeDefined()''
       (ToolObj (tool_literal ''optional-tool'' ''Tool with optional field''
          (z_object [(''required'', z_string), (''optional'', z_optional z_string)])
          (\<lambda>args. destructure args ''required'' (\<lambda>required.
                   destructure args ''optional'' (\<lambda>optional.
             Inr (text_content (js_String required
                    @ (if optional = JUndefined \<or> optional = JNull then []
                       else js_String optional))))))))"

definition test_enum_fields_in_type :: "failure + unit" where
  "test_enum_fields_in_type =
     toBeDefined ''expect(tool).toBeDefined()''
       (ToolObj (tool_literal ''format-tool'' ''Tool with enum field''
          (z_object [(''format'', z_enum [''unix'', ''iso'', ''human''])])
          (\<lambda>args. destructure args ''format''
             (\<lambda>fmt. Inr (JObj [(''content'',
                  JArr [JObj [(''type'', JStr ''text''), (''text'', fmt)]])])))))"

subsection \<open>defineTool type inference\<close>

definition test_infer_from_schema :: "('r, 'm) framework \<Rightarrow> failure + unit" where
  "test_infer_from_schema fw =
     andThen (defineTool fw
        (tool_literal ''inferred'' ''Type inference test''
           (z_object [(''message'', z_string), (''count'', z_optional z_number)])
           (\<lambda>args. destructure args ''message'' (\<lambda>message.
                    destructure args ''count'' (\<lambda>count.
              rejecting
                (andThen (toBe ''expect(typeof typedMessage).toBe('string')''
                            (JStr (typeof message)) (JStr ''string'')) (\<lambda>_.
                 andThen (toBe
                    ''expect(typedCount === undefined || typeof typedCount === 'number').toBe(true)''
                            (JBool (count = JUndefined \<or> typeof count = ''number''))
                            (JBool True)) (\<lambda>_.
                 Inr empty_content)))))))) (\<lambda>tool.
     toBeDefined ''expect(tool).toBeDefined()'' tool)"

definition test_infer_nested :: "('r, 'm) framework \<Rightarrow> failure + unit" where
  "test_infer_nested fw =
     andThen (defineTool fw
        (tool_literal ''complex'' ''Complex type inference''
           (z_object [(''data'', z_object [(''nested'', z_string),
                                           (''array'', z_array z_number)]),
                      (''optional'', z_optional z_boolean)])
           (\<lambda>args. destructure args ''data'' (\<lambda>data.
                    destructure args ''optional'' (\<lambda>optional.
                    andThen (get_prop (Data data) ''nested'') (\<lambda>nested.
                    andThen (get_prop (Data data) ''array'') (\<lambda>array.
              rejecting
                (andThen (toBe ''expect(typeof nested).toBe('string')''
                            (JStr (typeof nested)) (JStr ''string'')) (\<lambda>_.
                 andThen (toBe ''expect(Array.isArray(array)).toBe(true)''
                            (JBool (isArray (Data array))) (JBool True)) (\<lambda>_.
                 andThen (toBe
                    ''expect(optionalBool === undefined || typeof optionalBool === 'boolean').toBe(true)''
                            (JBool (optional = JUndefined \<or> typeof optional = ''boolean''))
                            (JBool True)) (\<lambda>_.
                 Inr empty_content))))))))))) (\<lambda>tool.
     toBeDefined ''expect(tool).toBeDefined()'' tool)"

subsection \<open>LLM type compatibility\<close>

definition test_LLMProvider_type :: "failure + unit" where
  "test_LLMProvider_type =
     andThen (uncaught (get_prop (Data (JArr [JStr ''anthropic'', JStr ''openai'', JStr ''gemini'']))
                ''length'')) (\<lambda>providers_length.
     toBe ''expect(providers.length).toBe(3)'' providers_length (JNum 3))"

definition test_LLMRequest_type :: "failure + unit" where
  "test_LLMRequest_type =
     andThen (uncaught (get_prop
        (Data (JObj [(''provider'', JStr ''anthropic''),
                     (''model'', JStr ''claude-3-5-sonnet-20241022''),
                     (''messages'', JArr [JObj [(''role'', JStr ''user''),
                                               (''content'', JStr ''test'')]]),
                     (''options'', JObj [(''max_tokens'', JNum 100)])]))
        ''provider'')) (\<lambda>request_provider.
     toBe ''expect(request.provider).toBe('anthropic')'' request_provider (JStr ''anthropic''))"

definition LLMResponse_literal :: jsval where
  "LLMResponse_literal =
     JObj [(''text'', JStr ''response text''),
           (''usage'', JObj [(''input_tokens'', JNum 10), (''output_tokens'', JNum 20),
                             (''total_tokens'', JNum 30)])]"

definition test_LLMResponse_type :: "failure + unit" where
  "test_LLMResponse_type =
     andThen (uncaught (get_prop (Data LLMResponse_literal) ''text'')) (\<lambda>response_text.
     andThen (toBe ''expect(response.text).toBe('response text')''
                response_text (JStr ''response text'')) (\<lambda>_.
     andThen (uncaught (get_prop (Data LLMResponse_literal) ''usage'')) (\<lambda>usage.
     andThen (uncaught (get_prop (Data usage) ''total_tokens'')) (\<lambda>total_tokens.
     toBe ''expect(response.usage.total_tokens).toBe(30)'' total_tokens (JNum 30)))))"

definition test_AnyModel_type :: "failure + unit" where
  "test_AnyModel_type =
     andThen (toBe ''expect(typeof claudeModel).toBe('string')''
                (JStr (typeof (JStr ''claude-3-5-sonnet-20241022''))) (JStr ''string'')) (\<lambda>_.
     andThen (toBe ''expect(typeof openaiModel).toBe('string')''
                (JStr (typeof (JStr ''gpt-4o''))) (JStr ''string'')) (\<lambda>_.
     toBe ''expect(typeof geminiModel).toBe('string')''
       (JStr (typeof (JStr ''gemini-2.0-flash''))) (JStr ''string'')))"

subsection \<open>CallToolResult type compatibility\<close>

definition test_text_content :: "('r, 'm) framework \<Rightarrow> failure + unit" where
  "test_text_content fw =
     andThen (defineTool fw
        (tool_literal ''text-tool'' ''Text content test'' (z_object [])
           (\<lambda>args. Inr (text_content ''Hello'')))) (\<lambda>tool.
     andThen (call_handler tool (JObj [])) (\<lambda>result.
     andThen (uncaught (get_prop (Data result) ''content'')) (\<lambda>result_content.
     andThen (uncaught (index0 result_content)) (\<lambda>item.
     andThen (toHaveProperty_value ''expect(result.content[0]).toHaveProperty('type', 'text')''
                item ''type'' (JStr ''text'')) (\<lambda>_.
     toHaveProperty ''expect(result.content[0]).toHaveProperty('text')'' (Data item) ''text'')))))"

definition test_error_flag :: "('r, 'm) framework \<Rightarrow> failure + unit" where
  "test_error_flag fw =
     andThen (defineTool fw
        (tool_literal ''error-tool'' ''Error handling test'' (z_object [])
           (\<lambda>args. Inr (JObj [(''content'',
                 JArr [JObj [(''type'', JStr ''text''), (''text'', JStr ''Error occurred'')]]),
               (''isError'', JBool True)])))) (\<lambda>tool.
     andThen (call_handler tool (JObj [])) (\<lambda>result.
     andThen (uncaught (get_prop (Data result) ''isError'')) (\<lambda>result_isError.
     toBe ''expect(result.isError).toBe(true)'' result_isError (JBool True))))"

definition test_multiple_content :: "('r, 'm) framework \<Rightarrow> failure + unit" where
  "test_multiple_content fw =
     andThen (defineTool fw
        (tool_literal ''multi-content'' ''Multiple content items'' (z_object [])
           (\<lambda>args. Inr (JObj [(''content'',
                 JArr [JObj [(''type'', JStr ''text''), (''text'', JStr ''First'')],
                       JObj [(''type'', JStr ''text''), (''text'', JStr ''Second'')]])])))) (\<lambda>tool.
     andThen (call_handler tool (JObj [])) (\<lambda>result.
     andThen (uncaught (get_prop (Data result) ''content'')) (\<lambda>result_content.
     toHaveLength ''expect(result.content).toHaveLength(2)'' result_content 2)))"

subsection \<open>Type safety regressions\<close>

text \<open>
  The definition given to \<open>defineTool\<close> in the first test of this group. In its
  handler, \<open>num\<close> and \<open>str\<close> are both \<open>count\<close>; the annotations \<open>number\<close> and
  \<open>string\<close> and the directive above the second declaration are gone at run time.
\<close>

definition wrong_input_types_definition :: tool_object where
  "wrong_input_types_definition =
     tool_literal ''type-safe'' ''Type safety check'' (z_object [(''count'', z_number)])
       (\<lambda>args. destructure args ''count'' (\<lambda>count.
          rejecting
            (andThen (toBe ''expect(typeof num).toBe('number')''
                        (JStr (typeof count)) (JStr ''number'')) (\<lambda>_.
             andThen (toBeDefined ''expect(str).toBeDefined()'' (Data count)) (\<lambda>_.
             Inr empty_content)))))"

definition test_wrong_input_types :: "('r, 'm) framework \<Rightarrow> failure + unit" where
  "test_wrong_input_types fw =
     andThen (defineTool fw wrong_input_types_definition) (\<lambda>tool.
     toBeDefined ''expect(tool).toBeDefined()'' tool)"

definition test_required_fields :: "('r, 'm) framework \<Rightarrow> failure + unit" where
  "test_required_fields fw =
     andThen (defineTool fw
        (tool_literal ''required-fields'' ''Required field check''
           (z_object [(''required'', z_string)])
           (\<lambda>args. destructure args ''required'' (\<lambda>required.
              rejecting
                (andThen (toBe ''expect(typeof value).toBe('string')''
                            (JStr (typeof required)) (JStr ''string'')) (\<lambda>_.
                 Inr empty_content)))))) (\<lambda>tool.
     toBeDefined ''expect(tool).toBeDefined()'' tool)"

subsection \<open>The tests of the file, in order, and its report\<close>

definition type_compatibility_tests :: "('r, 'm) framework \<Rightarrow> ProbeResult list list" where
  "type_compatibility_tests fw =
     [[it ''should accept valid tool definitions'' test_valid_tool_definitions,
       it ''should support optional input fields in type'' test_optional_fields_in_type,
       it ''should support enum input fields in type'' test_enum_fields_in_type],
      [it ''should infer input type from Zod schema'' (test_infer_from_schema fw),
       it ''should infer complex nested types'' (test_infer_nested fw)],
      [it ''should export LLMProvider type'' test_LLMProvider_type,
       it ''should export LLMRequest type with required fields'' test_LLMRequest_type,
       it ''should export LLMResponse type with required fields'' test_LLMResponse_type,
       it ''should export AnyModel type'' test_AnyModel_type],
      [it ''should support text content type'' (test_text_content fw),
       it ''should support error flag in result'' (test_error_flag fw),
       it ''should support multiple content items'' (test_multiple_content fw)],
      [it ''should prevent registering tools with wrong input types''
         (test_wrong_input_types fw),
       it ''should prevent missing required fields'' (test_required_fields fw)]]"

section \<open>Properties of the current test environment\<close>

lemma TEST_ENVIRONMENTS_keys:
  "map fst (TEST_ENVIRONMENTS env0) =
     [''express'', ''express:ci'', ''stdio'', ''vercel:local'', ''vercel:preview'',
      ''vercel:production'', ''docker'']"
  by (simp add: TEST_ENVIRONMENTS_def)

lemma TEST_ENVIRONMENTS_defined_nonempty:
  assumes "map_of (TEST_ENVIRONMENTS env0) n = Some e"
  shows "n \<noteq> []"
proof
  assume "n = []"
  with assms show False by (simp add: TEST_ENVIRONMENTS_def)
qed

text \<open>
  Claim C10, as amended. Let \<open>TEST_ENV\<close> be set to a name \<open>n\<close>. If the table defines
  \<open>n\<close> as \<open>e\<close>: with \<open>TEST_BASE_URL\<close> set to a non-empty string \<open>u\<close> the function returns
  \<open>e\<close> with only \<open>baseUrl\<close> replaced by \<open>u\<close> (name and description unchanged); with
  \<open>TEST_BASE_URL\<close> unset or empty it returns \<open>e\<close> unmodified. If \<open>n\<close> is non-empty, not
  defined by the table and not a member of \<open>Object.prototype\<close>, the function throws.
\<close>

theorem getCurrentEnvironment_override_frame:
  "env ''TEST_ENV'' = Some n \<Longrightarrow>
   (map_of (TEST_ENVIRONMENTS env0) n = Some e \<longrightarrow>
      (\<forall>u. env ''TEST_BASE_URL'' = Some u \<and> u \<noteq> [] \<longrightarrow>
         (\<exists>r. getCurrentEnvironment (TEST_ENVIRONMENTS env0) env = Inr (Environment r)
            \<and> baseUrl r = u \<and> name r = name e \<and> description r = description e
            \<and> r = e\<lparr>baseUrl := u\<rparr>))
      \<and> (env ''TEST_BASE_URL'' = None \<or> env ''TEST_BASE_URL'' = Some [] \<longrightarrow>
           getCurrentEnvironment (TEST_ENVIRONMENTS env0) env = Inr (Environment e)))
   \<and> (n \<noteq> [] \<and> map_of (TEST_ENVIRONMENTS env0) n = None
        \<and> n \<notin> set Object_prototype_keys \<longrightarrow>
        (\<exists>msg. getCurrentEnvironment (TEST_ENVIRONMENTS env0) env = Inl msg))"
proof (intro conjI impI allI)
  fix u
  assume n: "env ''TEST_ENV'' = Some n"
    and e: "map_of (TEST_ENVIRONMENTS env0) n = Some e"
    and u: "env ''TEST_BASE_URL'' = Some u \<and> u \<noteq> []"
  have "n \<noteq> []" using e by (rule TEST_ENVIRONMENTS_defined_nonempty)
  with n e u
  have "getCurrentEnvironment (TEST_ENVIRONMENTS env0) env
          = Inr (Environment (e\<lparr>baseUrl := u\<rparr>))"
    by (simp add: getCurrentEnvironment_def or_default_def js_get_def truthy_def)
  then show "\<exists>r. getCurrentEnvironment (TEST_ENVIRONMENTS env0) env = Inr (Environment r)
            \<and> baseUrl r = u \<and> name r = name e \<and> description r = description e
            \<and> r = e\<lparr>baseUrl := u\<rparr>"
    by simp
next
  assume n: "env ''TEST_ENV'' = Some n"
    and e: "map_of (TEST_ENVIRONMENTS env0) n = Some e"
    and u: "env ''TEST_BASE_URL'' = None \<or> env ''TEST_BASE_URL'' = Some []"
  have "n \<noteq> []" using e by (rule TEST_ENVIRONMENTS_defined_nonempty)
  with n e u
  show "getCurrentEnvironment (TEST_ENVIRONMENTS env0) env = Inr (Environment e)"
    by (auto simp add: getCurrentEnvironment_def or_default_def js_get_def truthy_def)
next
  assume n: "env ''TEST_ENV'' = Some n"
    and u: "n \<noteq> [] \<and> map_of (TEST_ENVIRONMENTS env0) n = None
              \<and> n \<notin> set Object_prototype_keys"
  then show "\<exists>msg. getCurrentEnvironment (TEST_ENVIRONMENTS env0) env = Inl msg"
    by (simp add: getCurrentEnvironment_def or_default_def js_get_def)
qed

theorem getCurrentEnvironment_override_frame_witness:
  "getCurrentEnvironment (TEST_ENVIRONMENTS Map.empty)
       [''TEST_ENV'' \<mapsto> ''docker'', ''TEST_BASE_URL'' \<mapsto> ''http://localhost:8080'']
     = Inr (Environment \<lparr>name = ''docker'', baseUrl = ''http://localhost:8080'',
              description = ''Docker container (docker run with exposed port)''\<rparr>)
   \<and> getCurrentEnvironment (TEST_ENVIRONMENTS Map.empty) [''TEST_ENV'' \<mapsto> ''docker'']
     = Inr (Environment \<lparr>name = ''docker'', baseUrl = ''http://localhost:3020'',
              description = ''Docker container (docker run with exposed port)''\<rparr>)
   \<and> (\<exists>msg. getCurrentEnvironment (TEST_ENVIRONMENTS Map.empty)
                 [''TEST_ENV'' \<mapsto> ''staging''] = Inl msg)"
  using getCurrentEnvironment_override_frame
          [of "[''TEST_ENV'' \<mapsto> ''docker'', ''TEST_BASE_URL'' \<mapsto> ''http://localhost:8080'']"
              "''docker''" Map.empty
              "\<lparr>name = ''docker'', baseUrl = ''http://localhost:3020'',
                description = ''Docker container (docker run with exposed port)''\<rparr>"]
        getCurrentEnvironment_override_frame
          [of "[''TEST_ENV'' \<mapsto> ''docker'']" "''docker''" Map.empty
              "\<lparr>name = ''docker'', baseUrl = ''http://localhost:3020'',
                description = ''Docker container (docker run with exposed port)''\<rparr>"]
        getCurrentEnvironment_override_frame
          [of "[''TEST_ENV'' \<mapsto> ''staging'']" "''staging''" Map.empty undefined]
  by (simp add: TEST_ENVIRONMENTS_def Object_prototype_keys_def)

text \<open>
  Claim C10 as stated fails where \<open>TEST_BASE_URL\<close> is set to the empty string: the
  guard \<open>if (process.env.TEST_BASE_URL)\<close> is falsy there, so the entry comes back with
  its own \<open>baseUrl\<close>, not with the empty one.
\<close>

theorem getCurrentEnvironment_empty_override_counterexample:
  "[''TEST_ENV'' \<mapsto> ''express'', ''TEST_BASE_URL'' \<mapsto> ''''] ''TEST_BASE_URL'' = Some ''''
   \<and> map_of (TEST_ENVIRONMENTS Map.empty) ''express''
       = Some \<lparr>name = ''express'', baseUrl = ''http://localhost:3020'',
                description = ''Express HTTP server (npm run dev:http)''\<rparr>
   \<and> getCurrentEnvironment (TEST_ENVIRONMENTS Map.empty)
         [''TEST_ENV'' \<mapsto> ''express'', ''TEST_BASE_URL'' \<mapsto> '''']
       \<noteq> Inr (Environment
               (\<lparr>name = ''express'', baseUrl = ''http://localhost:3020'',
                 description = ''Express HTTP server (npm run dev:http)''\<rparr>
                \<lparr>baseUrl := ''''\<rparr>))"
  by (simp add: getCurrentEnvironment_def TEST_ENVIRONMENTS_def or_default_def js_get_def
        truthy_def)

text \<open>
  A name inherited from \<open>Object.prototype\<close> is no test environment, and yet the lookup
  finds a truthy value for it: the function does not throw.
\<close>

lemma getCurrentEnvironment_inherited_name:
  "getCurrentEnvironment (TEST_ENVIRONMENTS Map.empty) [''TEST_ENV'' \<mapsto> ''constructor'']
     = Inr (PrototypeMember ''constructor'')"
  by (simp add: getCurrentEnvironment_def TEST_ENVIRONMENTS_def or_default_def js_get_def
        truthy_def Object_prototype_keys_def)

section \<open>Properties of the current-timestamp tool\<close>

lemma str_includes_sublist: "str_includes s t \<longleftrightarrow> sublist t s"
  by (induction s) (simp_all add: sublist_Cons_right)

lemma str_includes_middle: "str_includes (a @ t @ b) t"
  by (simp add: str_includes_sublist)

lemma str_includes_prefix: "str_includes (t @ b) t"
  using str_includes_middle [of "[]" t b] by simp

lemma handler_resolves: "\<exists>r. handler h inp = Inr r \<and> content r \<noteq> []"
  by (cases "handler_body h inp")
     (auto simp add: handler_def try_catch_def handler_body_def Let_def
        split: if_splits sum.splits)

lemma handler_invalid_timezone:
  assumes "timezone inp = Some tz" and "tz \<noteq> []"
    and "isl (DateTimeFormat h ''en-US'' [(''timeZone'', OStr tz)])"
  shows "handler h inp
           = Inr \<lparr>content = [TextContent (invalid_timezone_text tz)], isError = Some True\<rparr>"
  using assms by (simp add: handler_def try_catch_def handler_body_def truthy_def)

lemma handler_internal_error:
  assumes "handler_body h inp = Inl e"
  shows "handler h inp
           = Inr \<lparr>content = [TextContent (''Error getting timestamp: '' @ errorMessage e)],
                  isError = Some True\<rparr>"
  using assms by (simp add: handler_def try_catch_def)

text \<open>
  Claim C8, as amended. The handler never rejects: for every host and every input its
  promise resolves to a result with a non-empty content list. For every input whose
  timezone is a non-empty string that \<open>Intl.DateTimeFormat\<close> refuses, the result has
  \<open>isError = true\<close> and one text item that contains \<open>Invalid timezone:\<close> followed by the
  given timezone. Any other exception raised inside the body is returned as a result
  with \<open>isError = true\<close> and the text \<open>Error getting timestamp:\<close> with its message.
\<close>

theorem handler_never_throws:
  "(\<exists>r. handler h inp = Inr r \<and> content r \<noteq> [])
   \<and> (\<forall>tz. timezone inp = Some tz \<and> tz \<noteq> []
           \<and> isl (DateTimeFormat h ''en-US'' [(''timeZone'', OStr tz)]) \<longrightarrow>
         (\<exists>r t. handler h inp = Inr r \<and> isError r = Some True
            \<and> content r = [TextContent t] \<and> str_includes t (''Invalid timezone: '' @ tz)))
   \<and> (\<forall>e. handler_body h inp = Inl e \<longrightarrow>
         (\<exists>r. handler h inp = Inr r \<and> isError r = Some True
            \<and> content r = [TextContent (''Error getting timestamp: '' @ errorMessage e)]))"
proof (intro conjI allI impI)
  show "\<exists>r. handler h inp = Inr r \<and> content r \<noteq> []"
    by (rule handler_resolves)
next
  fix tz
  assume a: "timezone inp = Some tz \<and> tz \<noteq> []
               \<and> isl (DateTimeFormat h ''en-US'' [(''timeZone'', OStr tz)])"
  then have "handler h inp
      = Inr \<lparr>content = [TextContent (invalid_timezone_text tz)], isError = Some True\<rparr>"
    by (simp add: handler_invalid_timezone)
  moreover have "str_includes (invalid_timezone_text tz) (''Invalid timezone: '' @ tz)"
    unfolding invalid_timezone_text_def
    using str_includes_prefix [of "''Invalid timezone: '' @ tz"] by simp
  ultimately show "\<exists>r t. handler h inp = Inr r \<and> isError r = Some True
            \<and> content r = [TextContent t] \<and> str_includes t (''Invalid timezone: '' @ tz)"
    by simp
next
  fix e
  assume "handler_body h inp = Inl e"
  then show "\<exists>r. handler h inp = Inr r \<and> isError r = Some True
            \<and> content r = [TextContent (''Error getting timestamp: '' @ errorMessage e)]"
    by (simp add: handler_internal_error)
qed

theorem handler_never_throws_witness:
  "(\<exists>r t. handler sample_host \<lparr>timezone = Some ''Mars/Olympus'', format = ''iso''\<rparr> = Inr r
       \<and> isError r = Some True \<and> content r = [TextContent t]
       \<and> str_includes t ''Invalid timezone: Mars/Olympus'')
   \<and> (\<exists>r. handler (sample_host\<lparr>toISOString := \<lambda>t. Inl (ErrorObj ''Invalid time value'')\<rparr>)
              \<lparr>timezone = None, format = ''iso''\<rparr> = Inr r
       \<and> isError r = Some True
       \<and> content r = [TextContent ''Error getting timestamp: Invalid time value''])"
  using handler_never_throws
          [of sample_host "\<lparr>timezone = Some ''Mars/Olympus'', format = ''iso''\<rparr>"]
        handler_never_throws
          [of "sample_host\<lparr>toISOString := \<lambda>t. Inl (ErrorObj ''Invalid time value'')\<rparr>"
              "\<lparr>timezone = None, format = ''iso''\<rparr>"]
  by (simp add: sample_host_def handler_body_def format_result_def truthy_def)

text \<open>
  Claim C8 as stated fails for the empty timezone string: it is no time zone
  identifier (the constructor refuses it), but \<open>if (timezone)\<close> is falsy for it, the
  validation is skipped and the handler answers with a plain timestamp and no
  \<open>isError\<close>.
\<close>

theorem handler_empty_timezone_counterexample:
  "isl (DateTimeFormat sample_host ''en-US'' [(''timeZone'', OStr '''')])
   \<and> handler sample_host \<lparr>timezone = Some '''', format = ''unix''\<rparr>
       = Inr \<lparr>content = [TextContent ''Current timestamp: 1700000000''], isError = None\<rparr>"
  by (simp add: sample_host_def handler_def try_catch_def handler_body_def format_result_def
        truthy_def Number_toString_def digit_char_def)

section \<open>Properties of the interface stability tests\<close>

subsection \<open>When statements and matchers go through\<close>

lemma andThen_Inr: "andThen (Inr v) f = f v"
  by (simp add: andThen_def)

lemma andThen_Inl: "andThen (Inl e) f = Inl e"
  by (simp add: andThen_def)

lemma andThen_eq_Inr: "andThen m f = Inr y \<longleftrightarrow> (\<exists>v. m = Inr v \<and> f v = Inr y)"
  by (cases m) (simp_all add: andThen_def)

lemma uncaught_eq_Inr: "uncaught m = Inr v \<longleftrightarrow> m = Inr v"
  by (cases m) (simp_all add: uncaught_def)

lemma construct_eq_Inr:
  "construct what c impl = Inr v \<longleftrightarrow> (\<exists>n. c = JFun n) \<and> impl = Inr v"
  by (cases c) (simp_all add: construct_def uncaught_eq_Inr)

lemma call_eq_Inr: "call what f impl = Inr v \<longleftrightarrow> (\<exists>n. f = JFun n) \<and> impl = Inr v"
  by (cases f) (simp_all add: call_def uncaught_eq_Inr)

lemma toBe_eq_Inr: "toBe src a b = Inr u \<longleftrightarrow> a = b"
  by (simp add: toBe_def)

lemma typeof_function: "typeof v = ''function'' \<longleftrightarrow> (\<exists>n. v = JFun n)"
  by (cases v) simp_all

lemma rejects_toThrow_eq_Inr:
  "rejects_toThrow src p text = Inr u
     \<longleftrightarrow> (\<exists>e. p = Rejected e \<and> str_includes (errorMessage e) text)"
  by (cases p) (simp_all add: rejects_toThrow_def)

lemma has_property_not_nullish: "has_property v k \<Longrightarrow> \<not> is_nullish v"
  by (cases v rule: is_nullish.cases) auto

lemma it_status_Pass: "status (it title body) = Pass \<longleftrightarrow> body = Inr ()"
  by (cases body) (simp_all add: it_def)

subsection \<open>The test of \<open>LLMManager.initialize()\<close>\<close>

text \<open>
  Claim C1, as amended. The test of \<open>initialize()\<close> passes exactly when \<open>LLMManager\<close>
  is a constructor that gives a manager whose \<open>initialize\<close> is a function, and the
  call returns a promise that rejects with a message containing
  \<open>No LLM clients could be initialized\<close>.
\<close>

theorem LLMManager_initialize_passes_iff:
  "status (it ''should support initialize() method'' (test_LLMManager_initialize fw)) = Pass
   \<longleftrightarrow> (\<exists>n. LLMManager_export fw = JFun n)
       \<and> (\<exists>manager. LLMManager_new fw = Inr manager
             \<and> (\<exists>k. manager_member fw manager ''initialize'' = JFun k)
             \<and> (\<exists>e. manager_initialize fw manager = Inr (Rejected e)
                   \<and> str_includes (errorMessage e) ''No LLM clients could be initialized''))"
  unfolding it_status_Pass test_LLMManager_initialize_def new_LLMManager_def
  by (auto simp add: andThen_eq_Inr construct_eq_Inr call_eq_Inr toBe_eq_Inr typeof_function
        rejects_toThrow_eq_Inr)

text \<open>
  Claim C1 as stated fails: a rejection whose message contains
  \<open>could not be initialized\<close> but not the longer text the test asks for does not make
  the test pass.
\<close>

theorem LLMManager_initialize_message_counterexample:
  "manager_initialize
      ((reference_framework [])
         \<lparr>manager_initialize :=
            \<lambda>m. Inr (Rejected (ErrorObj ''LLM providers could not be initialized''))\<rparr>)
      [] = Inr (Rejected (ErrorObj ''LLM providers could not be initialized''))
   \<and> str_includes ''LLM providers could not be initialized'' ''could not be initialized''
   \<and> status (it ''should support initialize() method''
        (test_LLMManager_initialize
          ((reference_framework [])
             \<lparr>manager_initialize :=
                \<lambda>m. Inr (Rejected (ErrorObj ''LLM providers could not be initialized''))\<rparr>)))
       = Fail"
  by (simp add: reference_framework_def test_LLMManager_initialize_def new_LLMManager_def
        construct_def call_def uncaught_def andThen_def toBe_def ref_member_def
        rejects_toThrow_def it_def)

subsection \<open>A conforming registry passes the tests of the registry\<close>

lemma conforming_parts:
  assumes "conforming_registry held fw"
  shows "defineTool_export fw = JFun ''defineTool''"
    and "\<forall>d. defineTool_impl fw d = Inr (ToolObj d)"
    and "ToolRegistry_export fw = JFun ''ToolRegistry''"
    and "\<exists>r0. ToolRegistry_new fw = Inr r0 \<and> held r0 = []"
    and "\<forall>r k. k \<in> set registry_methods \<longrightarrow> (\<exists>n. registry_member fw r k = JFun n)"
    and "\<forall>r t n. own_prop (tool_props t) ''name'' = JStr n \<and> n \<notin> set (map fst (held r)) \<longrightarrow>
         (\<exists>r'. registry_add fw r (ToolObj t) = Inr r' \<and> held r' = held r @ [(n, t)])"
    and "\<forall>r n. registry_has fw r n = Inr (Data (JBool (n \<in> set (map fst (held r)))))"
    and "\<forall>r n t. map_of (held r) n = Some t \<longrightarrow> registry_get fw r n = Inr (ToolObj t)"
    and "\<forall>r. \<exists>items. registry_list fw r = Inr (Items items)
          \<and> length items = length (held r)
          \<and> (\<forall>item \<in> set items. has_property item ''name''
                \<and> has_property item ''description'' \<and> has_property item ''inputSchema'')"
    and "\<forall>r other. distinct (map fst (held r) @ map fst (held other)) \<longrightarrow>
         (\<exists>r'. registry_merge fw r other = Inr r' \<and> held r' = held r @ held other)"
    and "\<forall>r n t args v. map_of (held r) n = Some t \<and> tool_schema t args = Some v \<longrightarrow>
         registry_call fw r n args = andThen (tool_handler t v) (\<lambda>result. Inr (Data result))"
  using assms unfolding conforming_registry_def by - (elim conjE, assumption)+

lemma conforming_defineTool:
  assumes "conforming_registry held fw"
  shows "defineTool fw d = Inr (ToolObj d)"
  using conforming_parts(1,2) [OF assms] by (simp add: defineTool_def call_def uncaught_def)

lemma conforming_new:
  assumes "conforming_registry held fw"
  obtains r0 where "new_ToolRegistry fw = Inr r0" and "held r0 = []"
  using conforming_parts(3,4) [OF assms]
  by (auto simp add: new_ToolRegistry_def construct_def uncaught_def)

lemma conforming_member:
  assumes "conforming_registry held fw" and "k \<in> set registry_methods"
  obtains n where "registry_member fw r k = JFun n"
  using conforming_parts(5) [OF assms(1)] assms(2) by blast

lemma conforming_typeof:
  assumes "conforming_registry held fw" and "k \<in> set registry_methods"
  shows "typeof (registry_member fw r k) = ''function''"
  using conforming_member [OF assms] by (metis typeof.simps(8))

lemma conforming_add:
  assumes "conforming_registry held fw"
    and "own_prop (tool_props t) ''name'' = JStr n" and "n \<notin> set (map fst (held r))"
  obtains r' where "add fw r (ToolObj t) = Inr r'" and "held r' = held r @ [(n, t)]"
proof -
  obtain k where k: "registry_member fw r ''add'' = JFun k"
    using conforming_member [OF assms(1), of "''add''" r] by (auto simp add: registry_methods_def)
  from conforming_parts(6) [OF assms(1)] assms(2,3)
  obtain r' where "registry_add fw r (ToolObj t) = Inr r'"
    and "held r' = held r @ [(n, t)]"
    by blast
  with k that show ?thesis by (simp add: add_def call_def uncaught_def)
qed

lemma conforming_has:
  assumes "conforming_registry held fw"
  shows "has fw r n = Inr (Data (JBool (n \<in> set (map fst (held r)))))"
proof -
  obtain k where k: "registry_member fw r ''has'' = JFun k"
    using conforming_member [OF assms(1), of "''has''" r] by (auto simp add: registry_methods_def)
  from conforming_parts(7) [OF assms]
  have "registry_has fw r n = Inr (Data (JBool (n \<in> set (map fst (held r)))))"
    by blast
  with k show ?thesis by (simp add: has_def call_def uncaught_def)
qed

lemma conforming_get:
  assumes "conforming_registry held fw" and "map_of (held r) n = Some t"
  shows "get fw r n = Inr (ToolObj t)"
proof -
  obtain k where k: "registry_member fw r ''get'' = JFun k"
    using conforming_member [OF assms(1), of "''get''" r] by (auto simp add: registry_methods_def)
  from conforming_parts(8) [OF assms(1)] assms(2) have "registry_get fw r n = Inr (ToolObj t)"
    by blast
  with k show ?thesis by (simp add: get_def call_def uncaught_def)
qed

lemma conforming_list:
  assumes "conforming_registry held fw"
  obtains items where "list fw r = Inr (Items items)" and "length items = length (held r)"
    and "\<And>item. item \<in> set items \<Longrightarrow> has_property item ''name''
           \<and> has_property item ''description'' \<and> has_property item ''inputSchema''"
proof -
  obtain k where k: "registry_member fw r ''list'' = JFun k"
    using conforming_member [OF assms(1), of "''list''" r] by (auto simp add: registry_methods_def)
  from conforming_parts(9) [OF assms]
  obtain items where "registry_list fw r = Inr (Items items)"
    and "length items = length (held r)"
    and "\<forall>item \<in> set items. has_property item ''name''
           \<and> has_property item ''description'' \<and> has_property item ''inputSchema''"
    by blast
  with k that show ?thesis by (simp add: list_def call_def uncaught_def)
qed

lemma conforming_merge:
  assumes "conforming_registry held fw"
    and "distinct (map fst (held r) @ map fst (held other))"
  obtains r' where "merge fw r other = Inr r'" and "held r' = held r @ held other"
proof -
  obtain k where k: "registry_member fw r ''merge'' = JFun k"
    using conforming_member [OF assms(1), of "''merge''" r] by (auto simp add: registry_methods_def)
  from conforming_parts(10) [OF assms(1)] assms(2)
  obtain r' where "registry_merge fw r other = Inr r'"
    and "held r' = held r @ held other"
    by blast
  with k that show ?thesis by (simp add: merge_def call_def uncaught_def)
qed

lemma conforming_call:
  assumes "conforming_registry held fw"
    and "map_of (held r) n = Some t" and "tool_schema t args = Some v"
  shows "call_tool fw r n args = uncaught (andThen (tool_handler t v) (\<lambda>result. Inr (Data result)))"
proof -
  obtain k where k: "registry_member fw r ''call'' = JFun k"
    using conforming_member [OF assms(1), of "''call''" r] by (auto simp add: registry_methods_def)
  from conforming_parts(11) [OF assms(1)] assms(2,3)
  have "registry_call fw r n args = andThen (tool_handler t v) (\<lambda>result. Inr (Data result))"
    by blast
  with k show ?thesis by (simp add: call_tool_def call_def)
qed

lemma tool_literal_name [simp]: "own_prop (tool_props (tool_literal n d s h)) ''name'' = JStr n"
  by (simp add: tool_literal_def own_prop_def)

lemma export_passes:
  assumes "conforming_registry held fw"
  shows "test_ToolRegistry_export fw = Inr ()"
  using conforming_parts(3) [OF assms]
  by (simp add: test_ToolRegistry_export_def toBe_def andThen_def uncaught_def)

lemma add_passes:
  assumes "conforming_registry held fw"
  shows "test_ToolRegistry_add fw = Inr ()"
proof -
  let ?t = "tool_literal ''test'' ''Test'' (z_object [(''input'', z_string)])
           (\<lambda>args. destructure args ''input''
              (\<lambda>input. Inr (JObj [(''content'',
                   JArr [JObj [(''type'', JStr ''text''), (''text'', input)]])])))"
  obtain r0 where r0: "new_ToolRegistry fw = Inr r0" "held r0 = []"
    using assms by (rule conforming_new)
  obtain r1 where r1: "add fw r0 (ToolObj ?t) = Inr r1" "held r1 = held r0 @ [(''test'', ?t)]"
    using conforming_add [OF assms, of ?t "''test''" r0] r0 by auto
  show ?thesis
    unfolding test_ToolRegistry_add_def
    using r0 r1
    by (simp add: andThen_Inr conforming_defineTool [OF assms] conforming_has [OF assms]
          conforming_typeof [OF assms] registry_methods_def toBe_def)
qed


lemma get_passes:
  assumes "conforming_registry held fw"
  shows "test_ToolRegistry_get fw = Inr ()"
proof -
  let ?t = "tool_literal ''lookup-test'' ''Lookup test'' (z_object [])
              (\<lambda>args. Inr empty_content)"
  obtain r0 where r0: "new_ToolRegistry fw = Inr r0" "held r0 = []"
    using assms by (rule conforming_new)
  obtain r1 where r1: "add fw r0 (ToolObj ?t) = Inr r1"
      "held r1 = held r0 @ [(''lookup-test'', ?t)]"
    using conforming_add [OF assms, of ?t "''lookup-test''" r0] r0 by auto
  have "get fw r1 ''lookup-test'' = Inr (ToolObj ?t)"
    using conforming_get [OF assms, of r1 "''lookup-test''" ?t] r0 r1 by simp
  then show ?thesis
    unfolding test_ToolRegistry_get_def
    using r0 r1
    by (simp add: andThen_Inr conforming_defineTool [OF assms] toBeDefined_def toBe_def
          get_prop_opt_def)
qed

lemma has_passes:
  assumes "conforming_registry held fw"
  shows "test_ToolRegistry_has fw = Inr ()"
proof -
  obtain r0 where r0: "new_ToolRegistry fw = Inr r0" "held r0 = []"
    using assms by (rule conforming_new)
  show ?thesis
    unfolding test_ToolRegistry_has_def
    using r0
    by (simp add: andThen_Inr conforming_has [OF assms] conforming_typeof [OF assms]
          registry_methods_def toBe_def)
qed

lemma list_assertions_pass:
  assumes "length items = 2"
    and "\<And>item. item \<in> set items \<Longrightarrow> has_property item ''name''
           \<and> has_property item ''description'' \<and> has_property item ''inputSchema''"
  shows "in_sequence (list_assertions (Items items)) = Inr ()"
proof -
  from assms(1) obtain a b where items: "items = [a, b]"
    by (cases items; cases "tl items") auto
  with assms(2) [of a] show ?thesis
    by (simp add: list_assertions_def toBe_def toHaveProperty_def andThen_def uncaught_def
          has_property_not_nullish [of a "''name''"])
qed

lemma list_passes:
  assumes "conforming_registry held fw"
  shows "test_ToolRegistry_list fw = Inr ()"
proof -
  let ?t1 = "tool_literal ''tool1'' ''Tool 1'' (z_object []) (\<lambda>args. Inr empty_content)"
  let ?t2 = "tool_literal ''tool2'' ''Tool 2'' (z_object []) (\<lambda>args. Inr empty_content)"
  obtain r0 where r0: "new_ToolRegistry fw = Inr r0" "held r0 = []"
    using assms by (rule conforming_new)
  obtain r1 where r1: "add fw r0 (ToolObj ?t1) = Inr r1" "held r1 = held r0 @ [(''tool1'', ?t1)]"
    using conforming_add [OF assms, of ?t1 "''tool1''" r0] r0 by auto
  obtain r2 where r2: "add fw r1 (ToolObj ?t2) = Inr r2" "held r2 = held r1 @ [(''tool2'', ?t2)]"
    using conforming_add [OF assms, of ?t2 "''tool2''" r1] r0 r1 by auto
  obtain items where items: "list fw r2 = Inr (Items items)" "length items = length (held r2)"
    "\<And>item. item \<in> set items \<Longrightarrow> has_property item ''name''
           \<and> has_property item ''description'' \<and> has_property item ''inputSchema''"
    using conforming_list [OF assms, of r2] by blast
  have "length items = 2" using items(2) r0 r1 r2 by simp
  then have "in_sequence (list_assertions (Items items)) = Inr ()"
    using items(3) by (rule list_assertions_pass)
  then show ?thesis
    unfolding test_ToolRegistry_list_def
    using r0 r1 r2 items(1)
    by (simp add: andThen_Inr conforming_defineTool [OF assms])
qed

lemma merge_passes:
  assumes "conforming_registry held fw"
  shows "test_ToolRegistry_merge fw = Inr ()"
proof -
  let ?t1 = "tool_literal ''tool1'' ''Tool 1'' (z_object []) (\<lambda>args. Inr empty_content)"
  let ?t2 = "tool_literal ''tool2'' ''Tool 2'' (z_object []) (\<lambda>args. Inr empty_content)"
  obtain r0 where r0: "new_ToolRegistry fw = Inr r0" "held r0 = []"
    using assms by (rule conforming_new)
  obtain r1 where r1: "add fw r0 (ToolObj ?t1) = Inr r1" "held r1 = held r0 @ [(''tool1'', ?t1)]"
    using conforming_add [OF assms, of ?t1 "''tool1''" r0] r0 by auto
  obtain r2 where r2: "add fw r0 (ToolObj ?t2) = Inr r2" "held r2 = held r0 @ [(''tool2'', ?t2)]"
    using conforming_add [OF assms, of ?t2 "''tool2''" r0] r0 by auto
  obtain r3 where r3: "merge fw r1 r2 = Inr r3" "held r3 = held r1 @ held r2"
    using conforming_merge [OF assms, of r1 r2] r0 r1 r2 by auto
  show ?thesis
    unfolding test_ToolRegistry_merge_def
    using r0 r1 r2 r3
    by (simp add: andThen_Inr conforming_defineTool [OF assms] conforming_has [OF assms]
          conforming_typeof [OF assms] registry_methods_def toBe_def)
qed

lemma call_passes:
  assumes "conforming_registry held fw"
  shows "test_ToolRegistry_call fw = Inr ()"
proof -
  let ?t = "tool_literal ''invoke-test'' ''Invocation test'' (z_object [(''message'', z_string)])
           (\<lambda>args. destructure args ''message''
              (\<lambda>message. Inr (text_content (''Echo: '' @ js_String message))))"
  let ?args = "JObj [(''message'', JStr ''hello'')]"
  obtain r0 where r0: "new_ToolRegistry fw = Inr r0" "held r0 = []"
    using assms by (rule conforming_new)
  obtain r1 where r1: "add fw r0 (ToolObj ?t) = Inr r1" "held r1 = held r0 @ [(''invoke-test'', ?t)]"
    using conforming_add [OF assms, of ?t "''invoke-test''" r0] r0 by auto
  have parsed: "tool_schema ?t ?args = Some ?args"
    by (simp add: tool_literal_def z_object_def z_string_def)
  have "call_tool fw r1 ''invoke-test'' ?args
          = uncaught (andThen (tool_handler ?t ?args) (\<lambda>result. Inr (Data result)))"
    using r0 r1 parsed by (intro conforming_call [OF assms]) simp_all
  then have "call_tool fw r1 ''invoke-test'' ?args = Inr (Data (text_content ''Echo: hello''))"
    by (simp add: tool_literal_def destructure_def andThen_def uncaught_def own_prop_def)
  then show ?thesis
    unfolding test_ToolRegistry_call_def
    using r0 r1
    by (simp add: andThen_Inr conforming_defineTool [OF assms] conforming_typeof [OF assms]
          registry_methods_def toBe_def toHaveProperty_def text_content_def uncaught_def
          own_prop_def)
qed

lemma registry_group_passes:
  assumes "conforming_registry held fw"
  shows "describe ''ToolRegistry class'' (ToolRegistry_tests fw)
           = \<lparr>entry = ''ToolRegistry class'', status = Pass, failures = []\<rparr>"
  using assms
  by (simp add: describe_def ToolRegistry_tests_def it_def export_passes add_passes get_passes
        has_passes list_passes merge_passes call_passes)

text \<open>The framework of the previous section conforms, whatever the credentials.\<close>

lemma update_fresh: "n \<notin> set (map fst r) \<Longrightarrow> AList.update n t r = r @ [(n, t)]"
  by (induction r) auto

lemma fold_update_fresh:
  "distinct (map fst r @ map fst other) \<Longrightarrow>
     fold (\<lambda>(n, t) acc. AList.update n t acc) other r = r @ other"
proof (induction other arbitrary: r)
  case Nil
  then show ?case by simp
next
  case (Cons p other)
  obtain n t where p: "p = (n, t)" by (cases p)
  with Cons.prems have fresh: "n \<notin> set (map fst r)" by auto
  from Cons.prems p have "distinct (map fst (r @ [(n, t)]) @ map fst other)" by auto
  from Cons.IH [OF this] fresh p show ?case by (simp add: update_fresh)
qed

lemma reference_conforming: "conforming_registry (\<lambda>r. r) (reference_framework credentials)"
  unfolding conforming_registry_def
proof (intro conjI allI impI)
  fix r :: registry
  show "\<exists>items. registry_list (reference_framework credentials) r = Inr (Items items)
          \<and> length items = length r
          \<and> (\<forall>item \<in> set items. has_property item ''name''
                \<and> has_property item ''description'' \<and> has_property item ''inputSchema'')"
    by (auto simp add: reference_framework_def ref_list_def descriptor_def)
qed (auto simp add: reference_framework_def ref_member_def registry_methods_def ref_add_def
       ref_has_def ref_get_def ref_merge_def ref_call_def update_fresh fold_update_fresh)


subsection \<open>The entry of the registry class\<close>

lemma conforming_split:
  "conforming_registry held fw \<longleftrightarrow> registry_contract held fw \<and> defineTool_hands_back fw"
  unfolding conforming_registry_def registry_contract_def defineTool_hands_back_def
  by (rule iffI) (elim conjE, intro conjI, assumption+)+

lemma registry_contract_defineTool_export:
  "registry_contract held (fw\<lparr>defineTool_export := x\<rparr>) = registry_contract held fw"
  by (simp add: registry_contract_def)

lemma add_needs_method:
  "test_ToolRegistry_add fw = Inr u \<Longrightarrow> \<exists>r n. registry_member fw r ''add'' = JFun n"
  by (auto simp add: test_ToolRegistry_add_def andThen_eq_Inr toBe_eq_Inr typeof_function)

lemma get_needs_method:
  "test_ToolRegistry_get fw = Inr u \<Longrightarrow> \<exists>r n. registry_member fw r ''get'' = JFun n"
  by (auto simp add: test_ToolRegistry_get_def get_def andThen_eq_Inr call_eq_Inr)

lemma has_needs_method:
  "test_ToolRegistry_has fw = Inr u \<Longrightarrow> \<exists>r n. registry_member fw r ''has'' = JFun n"
  by (auto simp add: test_ToolRegistry_has_def andThen_eq_Inr toBe_eq_Inr typeof_function)

lemma list_needs_method:
  "test_ToolRegistry_list fw = Inr u \<Longrightarrow> \<exists>r n. registry_member fw r ''list'' = JFun n"
  by (auto simp add: test_ToolRegistry_list_def list_def andThen_eq_Inr call_eq_Inr)

lemma merge_needs_method:
  "test_ToolRegistry_merge fw = Inr u \<Longrightarrow> \<exists>r n. registry_member fw r ''merge'' = JFun n"
  by (auto simp add: test_ToolRegistry_merge_def andThen_eq_Inr toBe_eq_Inr typeof_function)

lemma call_needs_method:
  "test_ToolRegistry_call fw = Inr u \<Longrightarrow> \<exists>r n. registry_member fw r ''call'' = JFun n"
  by (auto simp add: test_ToolRegistry_call_def andThen_eq_Inr toBe_eq_Inr typeof_function)

lemma describe_Pass_all:
  "status (describe g ts) = Pass \<longleftrightarrow> (\<forall>t \<in> set ts. status t = Pass)"
  by (simp add: describe_def list_all_iff)

lemma group_needs_methods:
  assumes "status (describe ''ToolRegistry class'' (ToolRegistry_tests fw)) = Pass"
    and "k \<in> set registry_methods"
  shows "\<exists>r n. registry_member fw r k = JFun n"
proof -
  from assms(1) have
    "test_ToolRegistry_add fw = Inr ()" "test_ToolRegistry_get fw = Inr ()"
    "test_ToolRegistry_has fw = Inr ()" "test_ToolRegistry_list fw = Inr ()"
    "test_ToolRegistry_merge fw = Inr ()" "test_ToolRegistry_call fw = Inr ()"
    by (simp_all add: describe_Pass_all ToolRegistry_tests_def it_status_Pass)
  with assms(2) show ?thesis
    using add_needs_method get_needs_method has_needs_method list_needs_method
      merge_needs_method call_needs_method
    by (auto simp add: registry_methods_def)
qed

text \<open>
  Claim C3, as amended. The group \<open>ToolRegistry class\<close> is the entry for the registry
  class. It expects the methods \<open>add\<close>, \<open>get\<close>, \<open>has\<close>, \<open>list\<close>, \<open>merge\<close> and
  \<open>call\<close>: where the instances of the registry lack one of them, the test of that
  method fails, and so does the entry. Against a registry class that meets the
  contract, together with a \<open>defineTool\<close> that hands the definition back, the result
  of the entry is \<open>Pass\<close> with an empty list of failures.
\<close>

theorem registry_entry_expects_six_methods:
  "(registry_contract held fw \<and> defineTool_hands_back fw \<longrightarrow>
      describe ''ToolRegistry class'' (ToolRegistry_tests fw)
        = \<lparr>entry = ''ToolRegistry class'', status = Pass, failures = []\<rparr>)
   \<and> ((\<forall>r n. registry_member fw r ''add'' \<noteq> JFun n) \<longrightarrow> isl (test_ToolRegistry_add fw))
   \<and> ((\<forall>r n. registry_member fw r ''get'' \<noteq> JFun n) \<longrightarrow> isl (test_ToolRegistry_get fw))
   \<and> ((\<forall>r n. registry_member fw r ''has'' \<noteq> JFun n) \<longrightarrow> isl (test_ToolRegistry_has fw))
   \<and> ((\<forall>r n. registry_member fw r ''list'' \<noteq> JFun n) \<longrightarrow> isl (test_ToolRegistry_list fw))
   \<and> ((\<forall>r n. registry_member fw r ''merge'' \<noteq> JFun n) \<longrightarrow> isl (test_ToolRegistry_merge fw))
   \<and> ((\<forall>r n. registry_member fw r ''call'' \<noteq> JFun n) \<longrightarrow> isl (test_ToolRegistry_call fw))
   \<and> (\<forall>k \<in> set registry_methods. (\<forall>r n. registry_member fw r k \<noteq> JFun n) \<longrightarrow>
         status (describe ''ToolRegistry class'' (ToolRegistry_tests fw)) = Fail)"
proof (intro conjI impI ballI)
  assume "registry_contract held fw \<and> defineTool_hands_back fw"
  then have "conforming_registry held fw" by (simp add: conforming_split)
  then show "describe ''ToolRegistry class'' (ToolRegistry_tests fw)
        = \<lparr>entry = ''ToolRegistry class'', status = Pass, failures = []\<rparr>"
    by (rule registry_group_passes)
next
  assume "\<forall>r n. registry_member fw r ''add'' \<noteq> JFun n"
  then show "isl (test_ToolRegistry_add fw)"
    using add_needs_method [of fw] by (cases "test_ToolRegistry_add fw") auto
next
  assume "\<forall>r n. registry_member fw r ''get'' \<noteq> JFun n"
  then show "isl (test_ToolRegistry_get fw)"
    using get_needs_method [of fw] by (cases "test_ToolRegistry_get fw") auto
next
  assume "\<forall>r n. registry_member fw r ''has'' \<noteq> JFun n"
  then show "isl (test_ToolRegistry_has fw)"
    using has_needs_method [of fw] by (cases "test_ToolRegistry_has fw") auto
next
  assume "\<forall>r n. registry_member fw r ''list'' \<noteq> JFun n"
  then show "isl (test_ToolRegistry_list fw)"
    using list_needs_method [of fw] by (cases "test_ToolRegistry_list fw") auto
next
  assume "\<forall>r n. registry_member fw r ''merge'' \<noteq> JFun n"
  then show "isl (test_ToolRegistry_merge fw)"
    using merge_needs_method [of fw] by (cases "test_ToolRegistry_merge fw") auto
next
  assume "\<forall>r n. registry_member fw r ''call'' \<noteq> JFun n"
  then show "isl (test_ToolRegistry_call fw)"
    using call_needs_method [of fw] by (cases "test_ToolRegistry_call fw") auto
next
  fix k
  assume k: "k \<in> set registry_methods" and none: "\<forall>r n. registry_member fw r k \<noteq> JFun n"
  have "status (describe ''ToolRegistry class'' (ToolRegistry_tests fw)) \<noteq> Pass"
    using group_needs_methods [OF _ k, of fw] none by blast
  then show "status (describe ''ToolRegistry class'' (ToolRegistry_tests fw)) = Fail"
    by (simp add: describe_def split: if_splits)
qed

theorem registry_entry_expects_six_methods_witness:
  "registry_contract (\<lambda>r. r) (reference_framework [])
   \<and> defineTool_hands_back (reference_framework [])
   \<and> describe ''ToolRegistry class'' (ToolRegistry_tests (reference_framework []))
       = \<lparr>entry = ''ToolRegistry class'', status = Pass, failures = []\<rparr>
   \<and> isl (test_ToolRegistry_merge
        ((reference_framework [])
           \<lparr>registry_member :=
              \<lambda>r. ref_member [''add'', ''get'', ''has'', ''list'', ''call'']\<rparr>))
   \<and> status (describe ''ToolRegistry class''
        (ToolRegistry_tests
          ((reference_framework [])
             \<lparr>registry_member :=
                \<lambda>r. ref_member [''add'', ''get'', ''has'', ''list'', ''call'']\<rparr>)))
       = Fail"
proof -
  let ?fw = "reference_framework [] :: (registry, string list) framework"
  let ?lacking = "?fw\<lparr>registry_member :=
                      \<lambda>r. ref_member [''add'', ''get'', ''has'', ''list'', ''call'']\<rparr>"
  have c: "registry_contract (\<lambda>r. r) ?fw \<and> defineTool_hands_back ?fw"
    using reference_conforming [of "[]"] by (simp add: conforming_split)
  have none: "\<forall>r n. registry_member ?lacking r ''merge'' \<noteq> JFun n"
    by (simp add: ref_member_def)
  note ok = registry_entry_expects_six_methods [of "\<lambda>r. r" ?fw]
  note bad = registry_entry_expects_six_methods [of "\<lambda>r. r" ?lacking]
  from ok c have "describe ''ToolRegistry class'' (ToolRegistry_tests ?fw)
       = \<lparr>entry = ''ToolRegistry class'', status = Pass, failures = []\<rparr>"
    by blast
  moreover from bad none have "isl (test_ToolRegistry_merge ?lacking)" by blast
  moreover from bad none
  have "status (describe ''ToolRegistry class'' (ToolRegistry_tests ?lacking)) = Fail"
    by (auto simp add: registry_methods_def)
  ultimately show ?thesis using c by simp
qed

text \<open>
  Claim C3 as stated fails: the registry class may meet its contract in full and the
  entry still fail, where \<open>defineTool\<close>, with which the tests build their tools, is
  not exported.
\<close>

theorem conforming_registry_without_defineTool_counterexample:
  "registry_contract (\<lambda>r. r) ((reference_framework [])\<lparr>defineTool_export := JUndefined\<rparr>)
   \<and> status (describe ''ToolRegistry class''
        (ToolRegistry_tests ((reference_framework [])\<lparr>defineTool_export := JUndefined\<rparr>)))
       = Fail"
proof -
  let ?fw = "reference_framework [] :: (registry, string list) framework"
  have "registry_contract (\<lambda>r. r) ?fw"
    using reference_conforming [of "[]"] by (simp add: conforming_split)
  then have "registry_contract (\<lambda>r. r) (?fw\<lparr>defineTool_export := JUndefined\<rparr>)"
    by (simp add: registry_contract_defineTool_export)
  moreover have "test_ToolRegistry_add (?fw\<lparr>defineTool_export := JUndefined\<rparr>)
      = Inl (Uncaught (ErrorObj ''defineTool is not a function''))"
    by (simp add: test_ToolRegistry_add_def new_ToolRegistry_def construct_def uncaught_def
          andThen_def defineTool_def call_def reference_framework_def)
  then have "status (describe ''ToolRegistry class''
        (ToolRegistry_tests (?fw\<lparr>defineTool_export := JUndefined\<rparr>))) = Fail"
    by (simp add: describe_def ToolRegistry_tests_def it_def)
  ultimately show ?thesis by simp
qed

subsection \<open>A test stops at its first failure; a group runs all its tests\<close>


lemma it_failures: "failures (it title body) = (case body of Inl f \<Rightarrow> [f] | Inr u \<Rightarrow> [])"
  by (cases body) (simp_all add: it_def)

lemma it_status: "status (it title body) = (case body of Inl f \<Rightarrow> Fail | Inr u \<Rightarrow> Pass)"
  by (cases body) (simp_all add: it_def)

lemma in_sequence_Inr: "in_sequence as = Inr () \<longleftrightarrow> (\<forall>a \<in> set as. a = Inr ())"
  by (induction as) (auto simp add: andThen_eq_Inr)

lemma in_sequence_Inl:
  "in_sequence as = Inl f
     \<longleftrightarrow> (\<exists>pre post. as = pre @ Inl f # post \<and> (\<forall>a \<in> set pre. a = Inr ()))"
proof (induction as)
  case Nil
  then show ?case by simp
next
  case (Cons a as)
  show ?case
  proof (cases a)
    case (Inl e)
    show ?thesis
    proof
      assume "in_sequence (a # as) = Inl f"
      with Inl have "e = f" by (simp add: andThen_def)
      with Inl have "a # as = [] @ Inl f # as \<and> (\<forall>a \<in> set []. a = Inr ())" by simp
      then show "\<exists>pre post. a # as = pre @ Inl f # post \<and> (\<forall>a \<in> set pre. a = Inr ())"
        by blast
    next
      assume "\<exists>pre post. a # as = pre @ Inl f # post \<and> (\<forall>a \<in> set pre. a = Inr ())"
      then obtain pre post where eq: "a # as = pre @ Inl f # post"
        and pre: "\<forall>a \<in> set pre. a = Inr ()" by blast
      have "pre = []"
      proof (cases pre)
        case Nil then show ?thesis .
      next
        case (Cons p ps)
        with eq have "p = a" by simp
        with Cons pre Inl show ?thesis by simp
      qed
      with eq Inl show "in_sequence (a # as) = Inl f" by (simp add: andThen_def)
    qed
  next
    case (Inr u)
    have step: "in_sequence (a # as) = in_sequence as" using Inr by (simp add: andThen_def)
    show ?thesis
    proof
      assume "in_sequence (a # as) = Inl f"
      with step Cons.IH obtain pre post where "as = pre @ Inl f # post"
        and "\<forall>a \<in> set pre. a = Inr ()" by auto
      with Inr have "a # as = (a # pre) @ Inl f # post \<and> (\<forall>x \<in> set (a # pre). x = Inr ())"
        by simp
      then show "\<exists>pre post. a # as = pre @ Inl f # post \<and> (\<forall>a \<in> set pre. a = Inr ())"
        by blast
    next
      assume "\<exists>pre post. a # as = pre @ Inl f # post \<and> (\<forall>a \<in> set pre. a = Inr ())"
      then obtain pre post where eq: "a # as = pre @ Inl f # post"
        and pre: "\<forall>a \<in> set pre. a = Inr ()" by blast
      from eq Inr obtain pre' where "pre = a # pre'" by (cases pre) auto
      with eq pre have "as = pre' @ Inl f # post \<and> (\<forall>a \<in> set pre'. a = Inr ())" by simp
      with Cons.IH step show "in_sequence (a # as) = Inl f" by auto
    qed
  qed
qed

lemma describe_failures:
  "failures (describe g (map (\<lambda>(title, body). it title body) tests))
     = concat (map (\<lambda>(title, body). case body of Inl f \<Rightarrow> [f] | Inr u \<Rightarrow> []) tests)"
  by (induction tests) (auto simp add: describe_def it_failures split: sum.splits)

lemma describe_status:
  "status (describe g (map (\<lambda>(title, body). it title body) tests)) = Pass
     \<longleftrightarrow> (\<forall>(title, body) \<in> set tests. body = Inr ())"
  by (induction tests) (auto simp add: describe_def it_status list_all_iff split: sum.splits)

text \<open>
  Claim C5, as amended. A test passes exactly when it has no failure; otherwise its
  status is \<open>Fail\<close> and its failures are the one thing its body threw. Among
  assertions written in a row that is the first violated one, with every assertion
  before it satisfied: the later ones are not evaluated. A group runs all its tests:
  it carries the failure of every failed test, in order, and passes exactly when
  there is none.
\<close>

theorem first_failure_only:
  "(status (it title body) = Pass \<longleftrightarrow> failures (it title body) = [])
   \<and> (status (it title body) \<noteq> Pass \<longrightarrow>
        status (it title body) = Fail \<and> (\<exists>f. body = Inl f \<and> failures (it title body) = [f]))
   \<and> (\<forall>f. in_sequence as = Inl f \<longleftrightarrow>
         (\<exists>pre post. as = pre @ Inl f # post \<and> (\<forall>a \<in> set pre. a = Inr ())))
   \<and> (in_sequence as = Inr () \<longleftrightarrow> (\<forall>a \<in> set as. a = Inr ()))
   \<and> failures (describe g (map (\<lambda>(title, body). it title body) tests))
        = concat (map (\<lambda>(title, body). case body of Inl f \<Rightarrow> [f] | Inr u \<Rightarrow> []) tests)
   \<and> (status (describe g (map (\<lambda>(title, body). it title body) tests)) = Pass
        \<longleftrightarrow> failures (describe g (map (\<lambda>(title, body). it title body) tests)) = [])"
proof (intro conjI allI)
  show "status (it title body) = Pass \<longleftrightarrow> failures (it title body) = []"
    by (cases body) (simp_all add: it_def)
  show "status (it title body) \<noteq> Pass \<longrightarrow>
        status (it title body) = Fail \<and> (\<exists>f. body = Inl f \<and> failures (it title body) = [f])"
    by (cases body) (simp_all add: it_def)
  show "in_sequence as = Inl f \<longleftrightarrow>
         (\<exists>pre post. as = pre @ Inl f # post \<and> (\<forall>a \<in> set pre. a = Inr ()))" for f
    by (rule in_sequence_Inl)
  show "in_sequence as = Inr () \<longleftrightarrow> (\<forall>a \<in> set as. a = Inr ())"
    by (rule in_sequence_Inr)
  show "failures (describe g (map (\<lambda>(title, body). it title body) tests))
        = concat (map (\<lambda>(title, body). case body of Inl f \<Rightarrow> [f] | Inr u \<Rightarrow> []) tests)"
    by (rule describe_failures)
  show "status (describe g (map (\<lambda>(title, body). it title body) tests)) = Pass
        \<longleftrightarrow> failures (describe g (map (\<lambda>(title, body). it title body) tests)) = []"
    unfolding describe_status describe_failures
    by (induction tests) (auto split: sum.splits)
qed

theorem first_failure_only_witness:
  "status (it ''should support tool listing via list() method''
        (in_sequence (list_assertions (Items [])))) = Fail
   \<and> failures (it ''should support tool listing via list() method''
        (in_sequence (list_assertions (Items []))))
       = [AssertionError ''expect(tools.length).toBe(2)'']
   \<and> (\<exists>pre post. list_assertions (Items [])
          = pre @ Inl (AssertionError ''expect(tools.length).toBe(2)'') # post
        \<and> (\<forall>a \<in> set pre. a = Inr ()))"
proof -
  let ?f = "AssertionError ''expect(tools.length).toBe(2)''"
  have seq: "in_sequence (list_assertions (Items [])) = Inl ?f"
    by (simp add: list_assertions_def toBe_def toHaveProperty_def andThen_def uncaught_def)
  note all = first_failure_only
               [of "''should support tool listing via list() method''"
                   "in_sequence (list_assertions (Items []))" "list_assertions (Items [])"
                   "''ToolRegistry class''" "[]"]
  from all seq have "status (it ''should support tool listing via list() method''
        (in_sequence (list_assertions (Items [])))) = Fail"
    by (simp add: it_def)
  moreover from all seq have "failures (it ''should support tool listing via list() method''
        (in_sequence (list_assertions (Items [])))) = [?f]"
    by (simp add: it_def)
  moreover from all [THEN conjunct2, THEN conjunct2, THEN conjunct1, THEN spec, of ?f] seq
  have "\<exists>pre post. list_assertions (Items []) = pre @ Inl ?f # post
          \<and> (\<forall>a \<in> set pre. a = Inr ())"
    by simp
  ultimately show ?thesis by simp
qed

text \<open>
  Claim C5 as stated fails: where \<open>registry.list()\<close> returns an empty array, four of
  the five assertions of the listing test are violated, and the result of the test
  holds one failure, the first.
\<close>

theorem list_test_short_circuit_counterexample:
  "length (filter isl (list_assertions (Items []))) = 4
   \<and> failures (it ''should support tool listing via list() method''
        (test_ToolRegistry_list
           ((reference_framework [])\<lparr>registry_list := \<lambda>r. Inr (Items [])\<rparr>)))
       = [AssertionError ''expect(tools.length).toBe(2)'']"
  by (simp add: list_assertions_def toBe_def toHaveProperty_def andThen_def uncaught_def
        test_ToolRegistry_list_def reference_framework_def new_ToolRegistry_def construct_def
        defineTool_def call_def add_def list_def ref_member_def ref_add_def tool_literal_def
        own_prop_def it_def)

subsection \<open>A symbol the package does not export\<close>


lemmas test_defs =
  test_defineTool_export_def test_defineTool_zod_def test_defineTool_optional_def
  test_defineTool_enum_def test_ToolRegistry_export_def test_ToolRegistry_add_def
  test_ToolRegistry_get_def test_ToolRegistry_has_def test_ToolRegistry_list_def
  test_ToolRegistry_merge_def test_ToolRegistry_call_def test_EnvironmentConfig_export_def
  test_EnvironmentConfig_get_def test_EnvironmentConfig_getTransportMode_def
  test_EnvironmentConfig_logConfiguration_def test_LLMManager_export_def
  test_LLMManager_initialize_def test_LLMManager_getAvailableProviders_def
  test_LLMManager_isProviderAvailable_def
  defineTool_def new_ToolRegistry_def add_def get_def has_def list_def merge_def call_tool_def
  new_LLMManager_def

lemma LLMManager_absent_frame:
  "defineTool_tests (fw\<lparr>LLMManager_export := x\<rparr>) = defineTool_tests fw"
  "ToolRegistry_tests (fw\<lparr>LLMManager_export := x\<rparr>) = ToolRegistry_tests fw"
  "EnvironmentConfig_tests (fw\<lparr>LLMManager_export := x\<rparr>) = EnvironmentConfig_tests fw"
  by (simp_all add: defineTool_tests_def ToolRegistry_tests_def EnvironmentConfig_tests_def
        test_defs)

lemma EnvironmentConfig_absent_frame:
  "defineTool_tests (fw\<lparr>EnvironmentConfig_export := x\<rparr>) = defineTool_tests fw"
  "ToolRegistry_tests (fw\<lparr>EnvironmentConfig_export := x\<rparr>) = ToolRegistry_tests fw"
  "LLMManager_tests (fw\<lparr>EnvironmentConfig_export := x\<rparr>) = LLMManager_tests fw"
  by (simp_all add: defineTool_tests_def ToolRegistry_tests_def LLMManager_tests_def
        test_defs)

lemma ToolRegistry_absent_frame:
  "defineTool_tests (fw\<lparr>ToolRegistry_export := x\<rparr>) = defineTool_tests fw"
  "EnvironmentConfig_tests (fw\<lparr>ToolRegistry_export := x\<rparr>) = EnvironmentConfig_tests fw"
  "LLMManager_tests (fw\<lparr>ToolRegistry_export := x\<rparr>) = LLMManager_tests fw"
  by (simp_all add: defineTool_tests_def EnvironmentConfig_tests_def LLMManager_tests_def
        test_defs)

lemma defineTool_absent_frame:
  "EnvironmentConfig_tests (fw\<lparr>defineTool_export := x\<rparr>) = EnvironmentConfig_tests fw"
  "LLMManager_tests (fw\<lparr>defineTool_export := x\<rparr>) = LLMManager_tests fw"
  by (simp_all add: EnvironmentConfig_tests_def LLMManager_tests_def test_defs)

lemma LLMManager_absent_fails:
  assumes "LLMManager_export fw = JUndefined"
  shows "map failures (LLMManager_tests fw)
      = [[AssertionError ''expect(typeof LLMManager).toBe('function')''],
         [Uncaught (ErrorObj ''LLMManager is not a constructor'')],
         [Uncaught (ErrorObj ''LLMManager is not a constructor'')],
         [Uncaught (ErrorObj ''LLMManager is not a constructor'')]]"
  using assms
  by (simp add: LLMManager_tests_def test_defs it_def toBe_def andThen_def construct_def)

lemma EnvironmentConfig_absent_fails:
  assumes "EnvironmentConfig_export fw = JUndefined"
  shows "map failures (EnvironmentConfig_tests fw)
      = [[AssertionError ''expect(typeof EnvironmentConfig).toBe('function')''],
         [Uncaught (ErrorObj (''Cannot read properties of undefined (reading '' @ quoted ''get'' @ '')''))],
         [Uncaught (ErrorObj (''Cannot read properties of undefined (reading '' @ quoted ''getTransportMode'' @ '')''))],
         [Uncaught (ErrorObj (''Cannot read properties of undefined (reading '' @ quoted ''logConfiguration'' @ '')''))]]"
  using assms
  by (simp add: EnvironmentConfig_tests_def test_defs it_def toBe_def andThen_def
        static_member_def uncaught_def)

lemma ToolRegistry_absent_fails:
  assumes "ToolRegistry_export fw = JUndefined"
  shows "map failures (ToolRegistry_tests fw)
      = [[AssertionError ''expect(typeof ToolRegistry).toBe('function')''],
         [Uncaught (ErrorObj ''ToolRegistry is not a constructor'')],
         [Uncaught (ErrorObj ''ToolRegistry is not a constructor'')],
         [Uncaught (ErrorObj ''ToolRegistry is not a constructor'')],
         [Uncaught (ErrorObj ''ToolRegistry is not a constructor'')],
         [Uncaught (ErrorObj ''ToolRegistry is not a constructor'')],
         [Uncaught (ErrorObj ''ToolRegistry is not a constructor'')]]"
  using assms
  by (simp add: ToolRegistry_tests_def test_defs it_def toBe_def andThen_def construct_def)

lemma defineTool_absent_fails:
  assumes "defineTool_export fw = JUndefined"
  shows "map failures (defineTool_tests fw)
      = [[AssertionError ''expect(typeof defineTool).toBe('function')''],
         [Uncaught (ErrorObj ''defineTool is not a function'')],
         [Uncaught (ErrorObj ''defineTool is not a function'')],
         [Uncaught (ErrorObj ''defineTool is not a function'')]]"
  using assms
  by (simp add: defineTool_tests_def test_defs it_def toBe_def andThen_def call_def)

lemma status_of_failures:
  "status (it title body) = (if failures (it title body) = [] then Pass else Fail)"
  by (cases body) (simp_all add: it_def)

lemma describe_status_Fail: "map status ts = Fail # rest \<Longrightarrow> status (describe g ts) = Fail"
  by (cases ts) (auto simp add: describe_def)

lemma describe_status_Pass:
  "set (map status ts) \<subseteq> {Pass} \<Longrightarrow> status (describe g ts) = Pass"
  by (auto simp add: describe_def list_all_iff)

lemma defineTool_absent:
  "defineTool_export fw = JUndefined \<Longrightarrow>
     defineTool fw d = Inl (Uncaught (ErrorObj ''defineTool is not a function''))"
  by (simp add: defineTool_def call_def)

lemma isl_andThen: "(\<And>v. isl (f v)) \<Longrightarrow> isl (andThen m f)"
  by (cases m) (simp_all add: andThen_def)

lemma defineTool_absent_registry_tests:
  assumes "defineTool_export fw = JUndefined"
  shows "isl (test_ToolRegistry_add fw)" "isl (test_ToolRegistry_get fw)"
    "isl (test_ToolRegistry_list fw)" "isl (test_ToolRegistry_merge fw)"
    "isl (test_ToolRegistry_call fw)"
proof -
  note absent = defineTool_absent [OF assms]
  show "isl (test_ToolRegistry_add fw)"
    unfolding test_ToolRegistry_add_def
    by (rule isl_andThen) (simp only: absent andThen_Inl sum.disc)
  show "isl (test_ToolRegistry_get fw)"
    unfolding test_ToolRegistry_get_def
    by (rule isl_andThen) (simp only: absent andThen_Inl sum.disc)
  show "isl (test_ToolRegistry_list fw)"
    unfolding test_ToolRegistry_list_def
    by (rule isl_andThen) (simp only: absent andThen_Inl sum.disc)
  show "isl (test_ToolRegistry_merge fw)"
    unfolding test_ToolRegistry_merge_def
    by (rule isl_andThen, rule isl_andThen) (simp only: absent andThen_Inl sum.disc)
  show "isl (test_ToolRegistry_call fw)"
    unfolding test_ToolRegistry_call_def
    by (rule isl_andThen) (simp only: absent andThen_Inl sum.disc)
qed

lemma defineTool_absent_registry_TypeError:
  assumes "defineTool_export fw = JUndefined"
    and "ToolRegistry_export fw = JFun n" and "ToolRegistry_new fw = Inr r"
  shows "test_ToolRegistry_add fw = Inl (Uncaught (ErrorObj ''defineTool is not a function''))"
    "test_ToolRegistry_get fw = Inl (Uncaught (ErrorObj ''defineTool is not a function''))"
    "test_ToolRegistry_list fw = Inl (Uncaught (ErrorObj ''defineTool is not a function''))"
    "test_ToolRegistry_merge fw = Inl (Uncaught (ErrorObj ''defineTool is not a function''))"
    "test_ToolRegistry_call fw = Inl (Uncaught (ErrorObj ''defineTool is not a function''))"
proof -
  have new: "new_ToolRegistry fw = Inr r"
    using assms(2,3) by (simp add: new_ToolRegistry_def construct_def uncaught_def)
  show "test_ToolRegistry_add fw = Inl (Uncaught (ErrorObj ''defineTool is not a function''))"
    unfolding test_ToolRegistry_add_def
    by (simp only: new andThen_Inr andThen_Inl defineTool_absent [OF assms(1)])
  show "test_ToolRegistry_get fw = Inl (Uncaught (ErrorObj ''defineTool is not a function''))"
    unfolding test_ToolRegistry_get_def
    by (simp only: new andThen_Inr andThen_Inl defineTool_absent [OF assms(1)])
  show "test_ToolRegistry_list fw = Inl (Uncaught (ErrorObj ''defineTool is not a function''))"
    unfolding test_ToolRegistry_list_def
    by (simp only: new andThen_Inr andThen_Inl defineTool_absent [OF assms(1)])
  show "test_ToolRegistry_merge fw = Inl (Uncaught (ErrorObj ''defineTool is not a function''))"
    unfolding test_ToolRegistry_merge_def
    by (simp only: new andThen_Inr andThen_Inl defineTool_absent [OF assms(1)])
  show "test_ToolRegistry_call fw = Inl (Uncaught (ErrorObj ''defineTool is not a function''))"
    unfolding test_ToolRegistry_call_def
    by (simp only: new andThen_Inr andThen_Inl defineTool_absent [OF assms(1)])
qed

lemma defineTool_absent_registry_group:
  assumes "defineTool_export fw = JUndefined"
  shows "status (describe ''ToolRegistry class'' (ToolRegistry_tests fw)) = Fail"
proof -
  from defineTool_absent_registry_tests(1) [OF assms]
  have "status (it ''should support tool registration via add() method''
          (test_ToolRegistry_add fw)) = Fail"
    by (cases "test_ToolRegistry_add fw") (simp_all add: it_def)
  then show ?thesis by (simp add: describe_def ToolRegistry_tests_def)
qed

text \<open>
  Claim C2 as stated fails: with \<open>defineTool\<close> absent and \<open>ToolRegistry\<close> exported as
  before, the result of the registry group changes from \<open>Pass\<close> to \<open>Fail\<close>.
\<close>

theorem defineTool_absent_breaks_registry_counterexample:
  "ToolRegistry_export ((reference_framework [])\<lparr>defineTool_export := JUndefined\<rparr>)
     = JFun ''ToolRegistry''
   \<and> status (describe ''ToolRegistry class'' (ToolRegistry_tests (reference_framework [])))
       = Pass
   \<and> status (describe ''ToolRegistry class''
        (ToolRegistry_tests ((reference_framework [])\<lparr>defineTool_export := JUndefined\<rparr>)))
       = Fail"
proof -
  let ?fw = "reference_framework [] :: (registry, string list) framework"
  have "ToolRegistry_export (?fw\<lparr>defineTool_export := JUndefined\<rparr>) = JFun ''ToolRegistry''"
    by (simp add: reference_framework_def)
  moreover have "status (describe ''ToolRegistry class'' (ToolRegistry_tests ?fw)) = Pass"
    by (simp add: registry_group_passes [OF reference_conforming])
  moreover have "status (describe ''ToolRegistry class''
        (ToolRegistry_tests (?fw\<lparr>defineTool_export := JUndefined\<rparr>))) = Fail"
    by (rule defineTool_absent_registry_group) simp
  ultimately show ?thesis by simp
qed

text \<open>
  Claim C2, as amended. Where an imported symbol is absent (the binding reads as
  \<open>undefined\<close>), every test of the group of that symbol fails: the export test on
  its \<open>typeof\<close> assertion, the others on a \<open>TypeError\<close>. With \<open>defineTool\<close> absent the
  group of the registry fails as well, whatever the registry: the five tests that build
  a tool fail, on the \<open>TypeError\<close> of calling \<open>defineTool\<close> where the registry can be
  constructed. The report differs from the report against the unchanged packages only
  in these groups; the other groups are run and reported as before.
\<close>

theorem absent_symbol_fails_its_group:
  "(LLMManager_export fw = JUndefined \<longrightarrow>
      map failures (LLMManager_tests fw)
        = [[AssertionError ''expect(typeof LLMManager).toBe('function')''],
           [Uncaught (ErrorObj ''LLMManager is not a constructor'')],
           [Uncaught (ErrorObj ''LLMManager is not a constructor'')],
           [Uncaught (ErrorObj ''LLMManager is not a constructor'')]]
      \<and> map status (LLMManager_tests fw) = [Fail, Fail, Fail, Fail])
   \<and> (EnvironmentConfig_export fw = JUndefined \<longrightarrow>
      map failures (EnvironmentConfig_tests fw)
        = [[AssertionError ''expect(typeof EnvironmentConfig).toBe('function')''],
           [Uncaught (ErrorObj (''Cannot read properties of undefined (reading ''
                                  @ quoted ''get'' @ '')''))],
           [Uncaught (ErrorObj (''Cannot read properties of undefined (reading ''
                                  @ quoted ''getTransportMode'' @ '')''))],
           [Uncaught (ErrorObj (''Cannot read properties of undefined (reading ''
                                  @ quoted ''logConfiguration'' @ '')''))]]
      \<and> map status (EnvironmentConfig_tests fw) = [Fail, Fail, Fail, Fail])
   \<and> (ToolRegistry_export fw = JUndefined \<longrightarrow>
      map failures (ToolRegistry_tests fw)
        = [[AssertionError ''expect(typeof ToolRegistry).toBe('function')''],
           [Uncaught (ErrorObj ''ToolRegistry is not a constructor'')],
           [Uncaught (ErrorObj ''ToolRegistry is not a constructor'')],
           [Uncaught (ErrorObj ''ToolRegistry is not a constructor'')],
           [Uncaught (ErrorObj ''ToolRegistry is not a constructor'')],
           [Uncaught (ErrorObj ''ToolRegistry is not a constructor'')],
           [Uncaught (ErrorObj ''ToolRegistry is not a constructor'')]]
      \<and> map status (ToolRegistry_tests fw) = [Fail, Fail, Fail, Fail, Fail, Fail, Fail])
   \<and> (defineTool_export fw = JUndefined \<longrightarrow>
      map failures (defineTool_tests fw)
        = [[AssertionError ''expect(typeof defineTool).toBe('function')''],
           [Uncaught (ErrorObj ''defineTool is not a function'')],
           [Uncaught (ErrorObj ''defineTool is not a function'')],
           [Uncaught (ErrorObj ''defineTool is not a function'')]]
      \<and> map status (defineTool_tests fw) = [Fail, Fail, Fail, Fail]
      \<and> status (describe ''ToolRegistry class'' (ToolRegistry_tests fw)) = Fail
      \<and> isl (test_ToolRegistry_add fw) \<and> isl (test_ToolRegistry_get fw)
      \<and> isl (test_ToolRegistry_list fw) \<and> isl (test_ToolRegistry_merge fw)
      \<and> isl (test_ToolRegistry_call fw)
      \<and> ((\<exists>n. ToolRegistry_export fw = JFun n) \<and> (\<exists>r. ToolRegistry_new fw = Inr r) \<longrightarrow>
            test_ToolRegistry_add fw = Inl (Uncaught (ErrorObj ''defineTool is not a function''))
          \<and> test_ToolRegistry_get fw = Inl (Uncaught (ErrorObj ''defineTool is not a function''))
          \<and> test_ToolRegistry_list fw = Inl (Uncaught (ErrorObj ''defineTool is not a function''))
          \<and> test_ToolRegistry_merge fw = Inl (Uncaught (ErrorObj ''defineTool is not a function''))
          \<and> test_ToolRegistry_call fw
                = Inl (Uncaught (ErrorObj ''defineTool is not a function''))))
   \<and> interface_stability (fw\<lparr>LLMManager_export := JUndefined\<rparr>)
       = (interface_stability fw)
           [3 := describe ''LLMManager class''
                   (LLMManager_tests (fw\<lparr>LLMManager_export := JUndefined\<rparr>))]
   \<and> interface_stability (fw\<lparr>EnvironmentConfig_export := JUndefined\<rparr>)
       = (interface_stability fw)
           [2 := describe ''EnvironmentConfig class''
                   (EnvironmentConfig_tests (fw\<lparr>EnvironmentConfig_export := JUndefined\<rparr>))]
   \<and> interface_stability (fw\<lparr>ToolRegistry_export := JUndefined\<rparr>)
       = (interface_stability fw)
           [1 := describe ''ToolRegistry class''
                   (ToolRegistry_tests (fw\<lparr>ToolRegistry_export := JUndefined\<rparr>))]
   \<and> interface_stability (fw\<lparr>defineTool_export := JUndefined\<rparr>)
       = (interface_stability fw)
           [0 := describe ''defineTool function''
                   (defineTool_tests (fw\<lparr>defineTool_export := JUndefined\<rparr>)),
            1 := describe ''ToolRegistry class''
                   (ToolRegistry_tests (fw\<lparr>defineTool_export := JUndefined\<rparr>))]"
proof (intro conjI impI)
  assume a: "LLMManager_export fw = JUndefined"
  show "map failures (LLMManager_tests fw)
        = [[AssertionError ''expect(typeof LLMManager).toBe('function')''],
           [Uncaught (ErrorObj ''LLMManager is not a constructor'')],
           [Uncaught (ErrorObj ''LLMManager is not a constructor'')],
           [Uncaught (ErrorObj ''LLMManager is not a constructor'')]]"
    by (rule LLMManager_absent_fails [OF a])
  from LLMManager_absent_fails [OF a]
  show "map status (LLMManager_tests fw) = [Fail, Fail, Fail, Fail]"
    by (simp add: LLMManager_tests_def status_of_failures)
next
  assume a: "EnvironmentConfig_export fw = JUndefined"
  show "map failures (EnvironmentConfig_tests fw)
        = [[AssertionError ''expect(typeof EnvironmentConfig).toBe('function')''],
           [Uncaught (ErrorObj (''Cannot read properties of undefined (reading ''
                                  @ quoted ''get'' @ '')''))],
           [Uncaught (ErrorObj (''Cannot read properties of undefined (reading ''
                                  @ quoted ''getTransportMode'' @ '')''))],
           [Uncaught (ErrorObj (''Cannot read properties of undefined (reading ''
                                  @ quoted ''logConfiguration'' @ '')''))]]"
    by (rule EnvironmentConfig_absent_fails [OF a])
  from EnvironmentConfig_absent_fails [OF a]
  show "map status (EnvironmentConfig_tests fw) = [Fail, Fail, Fail, Fail]"
    by (simp add: EnvironmentConfig_tests_def status_of_failures)
next
  assume a: "ToolRegistry_export fw = JUndefined"
  show "map failures (ToolRegistry_tests fw)
        = [[AssertionError ''expect(typeof ToolRegistry).toBe('function')''],
           [Uncaught (ErrorObj ''ToolRegistry is not a constructor'')],
           [Uncaught (ErrorObj ''ToolRegistry is not a constructor'')],
           [Uncaught (ErrorObj ''ToolRegistry is not a constructor'')],
           [Uncaught (ErrorObj ''ToolRegistry is not a constructor'')],
           [Uncaught (ErrorObj ''ToolRegistry is not a constructor'')],
           [Uncaught (ErrorObj ''ToolRegistry is not a constructor'')]]"
    by (rule ToolRegistry_absent_fails [OF a])
  from ToolRegistry_absent_fails [OF a]
  show "map status (ToolRegistry_tests fw) = [Fail, Fail, Fail, Fail, Fail, Fail, Fail]"
    by (simp add: ToolRegistry_tests_def status_of_failures)
next
  assume a: "defineTool_export fw = JUndefined"
  show "map failures (defineTool_tests fw)
        = [[AssertionError ''expect(typeof defineTool).toBe('function')''],
           [Uncaught (ErrorObj ''defineTool is not a function'')],
           [Uncaught (ErrorObj ''defineTool is not a function'')],
           [Uncaught (ErrorObj ''defineTool is not a function'')]]"
    by (rule defineTool_absent_fails [OF a])
  from defineTool_absent_fails [OF a]
  show "map status (defineTool_tests fw) = [Fail, Fail, Fail, Fail]"
    by (simp add: defineTool_tests_def status_of_failures)
  show "status (describe ''ToolRegistry class'' (ToolRegistry_tests fw)) = Fail"
    by (rule defineTool_absent_registry_group [OF a])
  show "isl (test_ToolRegistry_add fw)" "isl (test_ToolRegistry_get fw)"
    "isl (test_ToolRegistry_list fw)" "isl (test_ToolRegistry_merge fw)"
    "isl (test_ToolRegistry_call fw)"
    by (rule defineTool_absent_registry_tests [OF a])+
  assume "(\<exists>n. ToolRegistry_export fw = JFun n) \<and> (\<exists>r. ToolRegistry_new fw = Inr r)"
  then obtain n r where b: "ToolRegistry_export fw = JFun n" "ToolRegistry_new fw = Inr r"
    by blast
  show "test_ToolRegistry_add fw = Inl (Uncaught (ErrorObj ''defineTool is not a function''))"
    "test_ToolRegistry_get fw = Inl (Uncaught (ErrorObj ''defineTool is not a function''))"
    "test_ToolRegistry_list fw = Inl (Uncaught (ErrorObj ''defineTool is not a function''))"
    "test_ToolRegistry_merge fw = Inl (Uncaught (ErrorObj ''defineTool is not a function''))"
    "test_ToolRegistry_call fw = Inl (Uncaught (ErrorObj ''defineTool is not a function''))"
    by (rule defineTool_absent_registry_TypeError [OF a b])+
qed (simp_all add: interface_stability_def LLMManager_absent_frame
       EnvironmentConfig_absent_frame ToolRegistry_absent_frame defineTool_absent_frame)

theorem absent_symbol_fails_its_group_witness:
  "map status (interface_stability ((reference_framework [])\<lparr>LLMManager_export := JUndefined\<rparr>))
     = [Pass, Pass, Pass, Fail]
   \<and> map status (LLMManager_tests ((reference_framework [])\<lparr>LLMManager_export := JUndefined\<rparr>))
     = [Fail, Fail, Fail, Fail]
   \<and> test_ToolRegistry_add ((reference_framework [])\<lparr>defineTool_export := JUndefined\<rparr>)
     = Inl (Uncaught (ErrorObj ''defineTool is not a function''))
   \<and> map status (interface_stability
        ((reference_framework [])
           \<lparr>defineTool_export := JUndefined, ToolRegistry_export := JUndefined,
            EnvironmentConfig_export := JUndefined, LLMManager_export := JUndefined\<rparr>))
     = [Fail, Fail, Fail, Fail]"
proof -
  let ?fw = "reference_framework [] :: (registry, string list) framework"
  let ?none = "?fw\<lparr>defineTool_export := JUndefined, ToolRegistry_export := JUndefined,
            EnvironmentConfig_export := JUndefined, LLMManager_export := JUndefined\<rparr>"
  have "map status (defineTool_tests ?fw) = [Pass, Pass, Pass, Pass]"
    by (simp add: reference_framework_def defineTool_tests_def it_def
          test_defineTool_export_def test_defineTool_zod_def test_defineTool_optional_def
          test_defineTool_enum_def defineTool_def call_def toBe_def toBeDefined_def
          andThen_def uncaught_def tool_literal_def own_prop_def)
  moreover have "status (describe ''ToolRegistry class'' (ToolRegistry_tests ?fw)) = Pass"
    by (simp add: registry_group_passes [OF reference_conforming])
  moreover have "map status (EnvironmentConfig_tests ?fw) = [Pass, Pass, Pass, Pass]"
    by (simp add: reference_framework_def EnvironmentConfig_tests_def it_def
          test_EnvironmentConfig_export_def test_EnvironmentConfig_get_def
          test_EnvironmentConfig_getTransportMode_def
          test_EnvironmentConfig_logConfiguration_def static_member_def ref_member_def
          call_def toBe_def toBeDefined_def toHaveProperty_def toContain_def andThen_def
          uncaught_def)
  ultimately have ok: "take 3 (map status (interface_stability ?fw)) = [Pass, Pass, Pass]"
    by (simp add: interface_stability_def describe_status_Pass)
  note one = absent_symbol_fails_its_group [of "?fw\<lparr>LLMManager_export := JUndefined\<rparr>"]
  note orig = absent_symbol_fails_its_group [of ?fw]
  note dt = absent_symbol_fails_its_group [of "?fw\<lparr>defineTool_export := JUndefined\<rparr>"]
  note all = absent_symbol_fails_its_group [of ?none]
  have llm: "map status (LLMManager_tests (?fw\<lparr>LLMManager_export := JUndefined\<rparr>))
               = [Fail, Fail, Fail, Fail]"
    using one by simp
  have "interface_stability (?fw\<lparr>LLMManager_export := JUndefined\<rparr>)
          = (interface_stability ?fw)
              [3 := describe ''LLMManager class''
                      (LLMManager_tests (?fw\<lparr>LLMManager_export := JUndefined\<rparr>))]"
    using orig by blast
  with ok llm
  have first: "map status (interface_stability (?fw\<lparr>LLMManager_export := JUndefined\<rparr>))
     = [Pass, Pass, Pass, Fail]"
    by (simp add: interface_stability_def describe_status_Fail)
  have "ToolRegistry_export (?fw\<lparr>defineTool_export := JUndefined\<rparr>) = JFun ''ToolRegistry''"
    and "ToolRegistry_new (?fw\<lparr>defineTool_export := JUndefined\<rparr>) = Inr []"
    by (simp_all add: reference_framework_def)
  with dt have add: "test_ToolRegistry_add (?fw\<lparr>defineTool_export := JUndefined\<rparr>)
     = Inl (Uncaught (ErrorObj ''defineTool is not a function''))"
    by simp
  have "map status (interface_stability ?none) = [Fail, Fail, Fail, Fail]"
    using all by (simp add: interface_stability_def describe_status_Fail)
  with first llm add show ?thesis by simp
qed

section \<open>Properties of the tools of the canary project\<close>


lemma createCanaryTools_fresh:
  assumes c: "conforming_registry held fw"
    and t: "own_prop (tool_props t) ''name'' = JStr n"
  obtains r where "createCanaryTools fw (ToolObj t) store = Inr (length store, store @ [r])"
    and "held r = [(n, t)]"
proof -
  obtain r0 where r0: "new_ToolRegistry fw = Inr r0" "held r0 = []"
    using c by (rule conforming_new)
  obtain r1 where r1: "add fw r0 (ToolObj t) = Inr r1" "held r1 = held r0 @ [(n, t)]"
    using conforming_add [OF c t, of r0] r0 by auto
  have "createCanaryTools fw (ToolObj t) store = Inr (length store, store @ [r1])"
    using r0 r1
    by (simp add: createCanaryTools_def store_new_def store_add_def andThen_Inr)
  moreover have "held r1 = [(n, t)]" using r0 r1 by simp
  ultimately show ?thesis using that by blast
qed

lemma store_add_other:
  assumes "store_add fw store a tool = Inr store'" and "a \<noteq> b"
  shows "store' ! b = store ! b"
  using assms by (auto simp add: store_add_def andThen_eq_Inr split: if_splits)

text \<open>
  Claim C9. With a conforming registry class, every call of \<open>createCanaryTools()\<close>
  returns a reference to a new registry object, one the store did not hold before,
  and that registry holds exactly one tool, \<open>currentTimestampTool\<close>, under the name
  \<open>current-timestamp\<close>. Two calls return different references, and adding a tool
  through one of them leaves the other registry, and every older object, as it was.
\<close>

theorem createCanaryTools_fresh_registry:
  assumes "conforming_registry held fw"
    and "currentTimestampTool fw h = Inr tool"
  shows "\<exists>a b r1 r2.
           createCanaryTools fw tool store = Inr (a, store @ [r1])
         \<and> createCanaryTools fw tool (store @ [r1]) = Inr (b, store @ [r1, r2])
         \<and> a = length store \<and> b = length store + 1 \<and> a \<noteq> b
         \<and> held r1 = [(''current-timestamp'', currentTimestampTool_definition h)]
         \<and> held r2 = [(''current-timestamp'', currentTimestampTool_definition h)]
         \<and> (\<forall>other store'. store_add fw (store @ [r1, r2]) a other = Inr store' \<longrightarrow>
               store' ! b = r2 \<and> take (length store) store' = store)
         \<and> (\<forall>other store'. store_add fw (store @ [r1, r2]) b other = Inr store' \<longrightarrow>
               store' ! a = r1 \<and> take (length store) store' = store)"
proof -
  let ?d = "currentTimestampTool_definition h"
  have tool: "tool = ToolObj ?d"
    using assms(2) conforming_defineTool [OF assms(1), of ?d]
    by (simp add: currentTimestampTool_def)
  have name: "own_prop (tool_props ?d) ''name'' = JStr ''current-timestamp''"
    by (simp add: currentTimestampTool_definition_def)
  obtain r1 where r1: "createCanaryTools fw (ToolObj ?d) store = Inr (length store, store @ [r1])"
      "held r1 = [(''current-timestamp'', ?d)]"
    using createCanaryTools_fresh [OF assms(1) name, of store] by blast
  obtain r2 where r2: "createCanaryTools fw (ToolObj ?d) (store @ [r1])
        = Inr (length (store @ [r1]), (store @ [r1]) @ [r2])"
      "held r2 = [(''current-timestamp'', ?d)]"
    using createCanaryTools_fresh [OF assms(1) name, of "store @ [r1]"] by blast
  have frame_a: "store' ! (length store + 1) = r2 \<and> take (length store) store' = store"
    if "store_add fw (store @ [r1, r2]) (length store) other = Inr store'" for other store'
    using that
    by (auto simp add: store_add_def andThen_eq_Inr nth_append list_update_append
          split: if_splits)
  have frame_b: "store' ! (length store) = r1 \<and> take (length store) store' = store"
    if "store_add fw (store @ [r1, r2]) (length store + 1) other = Inr store'" for other store'
    using that
    by (auto simp add: store_add_def andThen_eq_Inr nth_append list_update_append
          split: if_splits)
  show ?thesis
    using tool r1 r2 frame_a frame_b
    by (intro exI [of _ "length store"] exI [of _ "length store + 1"] exI [of _ r1]
          exI [of _ r2]) auto
qed

theorem createCanaryTools_fresh_registry_witness:
  "conforming_registry (\<lambda>r. r) (reference_framework [])
   \<and> currentTimestampTool (reference_framework []) sample_host
       = Inr (ToolObj (currentTimestampTool_definition sample_host))
   \<and> createCanaryTools (reference_framework [])
        (ToolObj (currentTimestampTool_definition sample_host)) []
       = Inr (0, [[(''current-timestamp'', currentTimestampTool_definition sample_host)]])
   \<and> createCanaryTools (reference_framework [])
        (ToolObj (currentTimestampTool_definition sample_host))
        [[(''current-timestamp'', currentTimestampTool_definition sample_host)]]
       = Inr (1, [[(''current-timestamp'', currentTimestampTool_definition sample_host)],
                  [(''current-timestamp'', currentTimestampTool_definition sample_host)]])"
proof -
  let ?fw = "reference_framework [] :: (registry, string list) framework"
  let ?d = "currentTimestampTool_definition sample_host"
  have c: "conforming_registry (\<lambda>r. r) ?fw" by (rule reference_conforming)
  have t: "currentTimestampTool ?fw sample_host = Inr (ToolObj ?d)"
    by (simp add: currentTimestampTool_def conforming_defineTool [OF c])
  from createCanaryTools_fresh_registry [OF c t, of "[]"]
  obtain a b r1 r2 where
    "createCanaryTools ?fw (ToolObj ?d) [] = Inr (a, [r1])"
    "createCanaryTools ?fw (ToolObj ?d) [r1] = Inr (b, [r1, r2])"
    "a = 0" "b = 1" "r1 = [(''current-timestamp'', ?d)]" "r2 = [(''current-timestamp'', ?d)]"
    by auto
  with c t show ?thesis by simp
qed

text \<open>
  Called on \<open>undefined\<close>, the handler of the tool rejects: the parameter is
  destructured before the \<open>try\<close> begins.
\<close>

lemma timestamp_handler_undefined_rejects: "isl (timestamp_handler h JUndefined)"
  by (simp add: timestamp_handler_def andThen_def)

section \<open>Properties of the type-compatibility tests at run time\<close>

lemmas type_test_defs =
  test_valid_tool_definitions_def test_optional_fields_in_type_def test_enum_fields_in_type_def
  test_infer_from_schema_def test_infer_nested_def test_LLMProvider_type_def
  test_LLMRequest_type_def test_LLMResponse_type_def test_AnyModel_type_def
  test_text_content_def test_error_flag_def test_multiple_content_def
  test_wrong_input_types_def test_required_fields_def

lemma tests_without_framework_pass:
  "test_valid_tool_definitions = Inr ()" "test_optional_fields_in_type = Inr ()"
  "test_enum_fields_in_type = Inr ()" "test_LLMProvider_type = Inr ()"
  "test_LLMRequest_type = Inr ()" "test_LLMResponse_type = Inr ()"
  "test_AnyModel_type = Inr ()"
  by (simp_all add: type_test_defs toBeDefined_def toBe_def andThen_def uncaught_def
        own_prop_def LLMResponse_literal_def)

lemma tests_with_defineTool_pass:
  assumes "defineTool_export fw = JFun n" and "\<forall>d. defineTool_impl fw d = Inr (ToolObj d)"
  shows "test_infer_from_schema fw = Inr ()" "test_infer_nested fw = Inr ()"
    "test_text_content fw = Inr ()" "test_error_flag fw = Inr ()"
    "test_multiple_content fw = Inr ()" "test_wrong_input_types fw = Inr ()"
    "test_required_fields fw = Inr ()"
  using assms
  by (simp_all add: type_test_defs defineTool_def call_def toBeDefined_def toBe_def andThen_def
        uncaught_def own_prop_def call_handler_def tool_literal_def text_content_def
        toHaveProperty_value_def toHaveProperty_def toHaveLength_def)

text \<open>
  Claim C4, the code at the failing input. The file is run with types erased, so what
  it reports does not depend on type declarations. Seven of its fourteen tests, among
  them the four \<open>should export ... type\<close> tests, read nothing from the packages and
  pass as they stand; with the packages behaving at run time as the reference
  framework, every test of the file is reported \<open>Pass\<close>, none \<open>Skip\<close>.
\<close>

theorem type_compatibility_units_pass:
  "test_valid_tool_definitions = Inr () \<and> test_optional_fields_in_type = Inr ()
   \<and> test_enum_fields_in_type = Inr () \<and> test_LLMProvider_type = Inr ()
   \<and> test_LLMRequest_type = Inr () \<and> test_LLMResponse_type = Inr ()
   \<and> test_AnyModel_type = Inr ()
   \<and> map (map status) (type_compatibility_tests (reference_framework []))
       = [[Pass, Pass, Pass], [Pass, Pass], [Pass, Pass, Pass, Pass], [Pass, Pass, Pass],
          [Pass, Pass]]"
proof -
  let ?fw = "reference_framework [] :: (registry, string list) framework"
  have e: "defineTool_export ?fw = JFun ''defineTool''"
    and d: "\<forall>d. defineTool_impl ?fw d = Inr (ToolObj d)"
    by (simp_all add: reference_framework_def)
  have "map (map status) (type_compatibility_tests ?fw)
       = [[Pass, Pass, Pass], [Pass, Pass], [Pass, Pass, Pass, Pass], [Pass, Pass, Pass],
          [Pass, Pass]]"
    by (simp add: type_compatibility_tests_def it_def tests_without_framework_pass
          tests_with_defineTool_pass [OF e d])
  then show ?thesis by (simp add: tests_without_framework_pass)
qed

text \<open>
  Claim C6, the code at the failing input. The test that holds the
  \<open>@ts-expect-error\<close> line passes exactly when \<open>defineTool\<close> returns something
  defined: the handler with the two declarations is never called, so neither the
  directive, erased before the run, nor the assertions of the handler play a part.
  Called with a \<open>count\<close> that is no number, the handler would reject.
\<close>

theorem wrong_input_types_test_ignores_types:
  "(test_wrong_input_types fw = Inr ()
      \<longleftrightarrow> (\<exists>tool. defineTool fw wrong_input_types_definition = Inr tool
                 \<and> \<not> is_undefined tool))
   \<and> test_wrong_input_types (reference_framework []) = Inr ()
   \<and> tool_handler wrong_input_types_definition (JObj [(''count'', JStr ''five'')])
       = Inl (ErrorObj ''expect(typeof num).toBe('number')'')
   \<and> tool_handler wrong_input_types_definition (JObj [(''count'', JNum 5)])
       = Inr empty_content"
proof (intro conjI)
  show "test_wrong_input_types fw = Inr ()
      \<longleftrightarrow> (\<exists>tool. defineTool fw wrong_input_types_definition = Inr tool
                 \<and> \<not> is_undefined tool)"
    by (auto simp add: test_wrong_input_types_def andThen_eq_Inr toBeDefined_def)
  show "test_wrong_input_types (reference_framework []) = Inr ()"
    by (simp add: test_wrong_input_types_def defineTool_def call_def uncaught_def andThen_def
          toBeDefined_def reference_framework_def)
  show "tool_handler wrong_input_types_definition (JObj [(''count'', JStr ''five'')])
       = Inl (ErrorObj ''expect(typeof num).toBe('number')'')"
    by (simp add: wrong_input_types_definition_def tool_literal_def destructure_def
          andThen_def rejecting_def toBe_def own_prop_def)
  show "tool_handler wrong_input_types_definition (JObj [(''count'', JNum 5)])
       = Inr empty_content"
    by (simp add: wrong_input_types_definition_def tool_literal_def destructure_def
          andThen_def rejecting_def toBe_def toBeDefined_def own_prop_def)
qed

end
